theory Spec2Isabelle
  imports Main
begin

section \<open>BCI-tests: the image catalog and the verification rules\<close>

text \<open>
  A shallow embedding of \<^verbatim>\<open>bci_tester/data.py\<close> (the image catalog, built when the
  module is imported) and of the decision rules of \<^verbatim>\<open>tests/test_base.py\<close> (size
  limits, expected digest lists).

  Python strings are modelled as \<^typ>\<open>string\<close>, a list of characters with code points
  below 256. Exceptions are values of \<open>error\<close>; a computation that may raise returns
  \<open>error + 'a\<close>, with \<open>Inl\<close> for the exception.
\<close>

datatype error = ValueError | AssertionError | KeyError

section \<open>The image catalog of \<^verbatim>\<open>bci_tester/data.py\<close>\<close>

subsection \<open>Python built-ins used by the module\<close>

text \<open>
  \<^verbatim>\<open>int(s)\<close> for a string, base 10: white space is stripped on both sides (the ASCII
  white space and, among the code points below 256, NEL and the no-break space), one
  sign is allowed, then at least one digit, with single underscores allowed between
  digits. Anything else is a \<open>ValueError\<close>. The limit on the number of digits of recent
  Python versions is not modelled.
\<close>

definition isspace :: "char \<Rightarrow> bool" where
  "isspace c = (c \<in> set [CHR 0x09, CHR 0x0A, CHR 0x0B, CHR 0x0C, CHR 0x0D, CHR 0x20, CHR 0x85, CHR 0xA0])"

definition strip :: "string \<Rightarrow> string" where
  "strip s = rev (dropWhile isspace (rev (dropWhile isspace s)))"

definition isdigit :: "char \<Rightarrow> bool" where
  "isdigit c = (c \<in> set ''0123456789'')"

definition digit_value :: "char \<Rightarrow> int" where
  "digit_value c = int (of_char c) - 48"

fun digits_value :: "int \<Rightarrow> string \<Rightarrow> int option" where
  "digits_value acc [] = Some acc"
| "digits_value acc [c] = (if isdigit c then Some (10 * acc + digit_value c) else None)"
| "digits_value acc (c # d # ds) =
     (if isdigit c then digits_value (10 * acc + digit_value c) (d # ds)
      else if c = CHR ''_'' \<and> isdigit d then digits_value (10 * acc + digit_value d) ds
      else None)"

definition py_int :: "string \<Rightarrow> error + int" where
  "py_int s =
     (let t = strip s;
          (sign, u) = (case t of
                         [] \<Rightarrow> (1, t)
                       | c # r \<Rightarrow> if c = CHR ''-'' then (- 1, r)
                                  else if c = CHR ''+'' then (1, r) else (1, t))
      in case u of
           [] \<Rightarrow> Inl ValueError
         | c # _ \<Rightarrow> if isdigit c
                    then (case digits_value 0 u of
                            None \<Rightarrow> Inl ValueError
                          | Some n \<Rightarrow> Inr (sign * n))
                    else Inl ValueError)"

text \<open>\<^verbatim>\<open>s.split(sep)\<close> for a separator of one character: never empty, and empty
  pieces are kept.\<close>

fun split_chr :: "string \<Rightarrow> char \<Rightarrow> string list" where
  "split_chr [] sep = [[]]"
| "split_chr (c # cs) sep =
     (if c = sep then [] # split_chr cs sep
      else (case split_chr cs sep of
              [] \<Rightarrow> [[c]]
            | w # ws \<Rightarrow> (c # w) # ws))"

text \<open>
  \<^verbatim>\<open>a, b = (f(x) for x in xs)\<close>: the generator is consumed item by item, so an item
  that raises is reported before the number of items is; too few or too many items
  are a \<open>ValueError\<close>.
\<close>

fun unpack_2 :: "(error + 'a) list \<Rightarrow> error + ('a \<times> 'a)" where
  "unpack_2 [] = Inl ValueError"
| "unpack_2 (Inl e # _) = Inl e"
| "unpack_2 [Inr x] = Inl ValueError"
| "unpack_2 (Inr x # Inl e # _) = Inl e"
| "unpack_2 [Inr x, Inr y] = Inr (x, y)"
| "unpack_2 (Inr x # Inr y # Inl e # _) = Inl e"
| "unpack_2 (Inr x # Inr y # Inr z # _) = Inl ValueError"

text \<open>\<^verbatim>\<open>str(i)\<close> for an integer, as the f-strings format it.\<close>

definition digit_char :: "nat \<Rightarrow> char" where
  "digit_char d = ''0123456789'' ! d"

fun str_nat :: "nat \<Rightarrow> string" where
  "str_nat n = (if n < 10 then [digit_char n] else str_nat (n div 10) @ [digit_char (n mod 10)])"

definition str_int :: "int \<Rightarrow> string" where
  "str_int i = (if i < 0 then CHR ''-'' # str_nat (nat (- i)) else str_nat (nat i))"

subsection \<open>Container descriptors\<close>

text \<open>
  \<open>Container\<close> and \<open>DerivedContainer\<close> come from the library pytest_container. The
  attributes modelled are the ones the module sets or copies: \<open>url\<close>, or \<open>base\<close> and
  \<open>containerfile\<close>, then \<open>extra_launch_args\<close> (default: empty) and
  \<open>default_entry_point\<close> (default: false).
\<close>

datatype container =
  is_Container: Container
    (url: string) (extra_launch_args: "string list") (default_entry_point: bool)
| is_DerivedContainer: DerivedContainer
    (base: string) (containerfile: string)
    (extra_launch_args: "string list") (default_entry_point: bool)

text \<open>
  What the module reads from outside: three environment variables (\<open>None\<close> when unset),
  the architecture of the host (\<^verbatim>\<open>LOCALHOST.system_info.arch\<close>) and
  \<^verbatim>\<open>bci_tester.runtime_choice.DOCKER_SELECTED\<close>.
\<close>

record environ =
  getenv_OS_VERSION :: "string option"
  getenv_OS_PRETTY_NAME :: "string option"
  getenv_BCI_DEVEL_REPO :: "string option"
  system_info_arch :: string
  DOCKER_SELECTED :: bool

text \<open>\<^verbatim>\<open>os.getenv(name, default)\<close>\<close>

definition getenv_default :: "string option \<Rightarrow> string \<Rightarrow> string" where
  "getenv_default v d = (case v of None \<Rightarrow> d | Some s \<Rightarrow> s)"

definition DEFAULT_REGISTRY :: string where
  "DEFAULT_REGISTRY = ''registry.suse.de''"

subsection \<open>The named images\<close>

text \<open>The module's names bound to an image descriptor, apart from the repoclosure helper.\<close>

record containers =
  BASE_CONTAINER :: container
  MINIMAL_CONTAINER :: container
  MICRO_CONTAINER :: container
  GO_1_16_CONTAINER :: container
  GO_1_17_CONTAINER :: container
  OPENJDK_11_CONTAINER :: container
  OPENJDK_DEVEL_11_CONTAINER :: container
  NODEJS_12_CONTAINER :: container
  NODEJS_14_CONTAINER :: container
  PYTHON36_CONTAINER :: container
  PYTHON39_CONTAINER :: container
  DOTNET_SDK_3_1_CONTAINER :: container
  DOTNET_SDK_5_0_CONTAINER :: container
  DOTNET_SDK_6_0_CONTAINER :: container
  DOTNET_ASPNET_3_1_CONTAINER :: container
  DOTNET_ASPNET_5_0_CONTAINER :: container
  DOTNET_ASPNET_6_0_CONTAINER :: container
  DOTNET_RUNTIME_3_1_CONTAINER :: container
  DOTNET_RUNTIME_5_0_CONTAINER :: container
  DOTNET_RUNTIME_6_0_CONTAINER :: container
  INIT_CONTAINER :: container

text \<open>Lines 42--125: every image starts as a plain \<open>Container\<close> with a remote URL.\<close>

definition remote_containers :: "string \<Rightarrow> string \<Rightarrow> bool \<Rightarrow> containers" where
  "remote_containers OS_VERSION BASE_URL docker_selected =
     \<lparr> BASE_CONTAINER = Container
         (DEFAULT_REGISTRY @ ''/suse/sle-15-sp3/update/cr/totest/images/suse/sle15:'' @ OS_VERSION)
         [] False,
       MINIMAL_CONTAINER = Container
         (DEFAULT_REGISTRY @ ''/suse/sle-15-sp3/update/cr/totest/images/bci/minimal:'' @ OS_VERSION)
         [] False,
       MICRO_CONTAINER = Container
         (DEFAULT_REGISTRY @ ''/suse/sle-15-sp3/update/cr/totest/images/bci/micro:'' @ OS_VERSION)
         [] False,
       GO_1_16_CONTAINER = Container
         (DEFAULT_REGISTRY @ ''/suse/sle-15-sp3/update/cr/totest/images/bci/golang:1.16'') [] False,
       GO_1_17_CONTAINER = Container
         (DEFAULT_REGISTRY @ ''/suse/sle-15-sp3/update/cr/totest/images/bci/golang:1.17'') [] False,
       OPENJDK_11_CONTAINER = Container
         (DEFAULT_REGISTRY @ ''/suse/sle-15-sp3/update/cr/totest/images/bci/openjdk:11'') [] False,
       OPENJDK_DEVEL_11_CONTAINER = Container
         (DEFAULT_REGISTRY @ ''/suse/sle-15-sp3/update/cr/totest/images/bci/openjdk-devel:11'')
         [] False,
       NODEJS_12_CONTAINER = Container
         (DEFAULT_REGISTRY @ ''/suse/sle-15-sp3/update/cr/totest/images/bci/nodejs:12'') [] False,
       NODEJS_14_CONTAINER = Container
         (DEFAULT_REGISTRY @ ''/suse/sle-15-sp3/update/cr/totest/images/bci/nodejs:14'') [] False,
       PYTHON36_CONTAINER = Container
         (DEFAULT_REGISTRY @ ''/suse/sle-15-sp3/update/cr/totest/images/bci/python:3.6'') [] False,
       PYTHON39_CONTAINER = Container
         (DEFAULT_REGISTRY @ ''/suse/sle-15-sp3/update/cr/totest/images/bci/python:3.9'') [] False,
       DOTNET_SDK_3_1_CONTAINER = Container (BASE_URL @ ''/bci/dotnet-sdk:3.1'') [] False,
       DOTNET_SDK_5_0_CONTAINER = Container (BASE_URL @ ''/bci/dotnet-sdk:5.0'') [] False,
       DOTNET_SDK_6_0_CONTAINER = Container (BASE_URL @ ''/bci/dotnet-sdk:6.0'') [] False,
       DOTNET_ASPNET_3_1_CONTAINER = Container (BASE_URL @ ''/bci/dotnet-aspnet:3.1'') [] False,
       DOTNET_ASPNET_5_0_CONTAINER = Container (BASE_URL @ ''/bci/dotnet-aspnet:5.0'') [] False,
       DOTNET_ASPNET_6_0_CONTAINER = Container (BASE_URL @ ''/bci/dotnet-aspnet:6.0'') [] False,
       DOTNET_RUNTIME_3_1_CONTAINER = Container (BASE_URL @ ''/bci/dotnet-runtime:3.1'') [] False,
       DOTNET_RUNTIME_5_0_CONTAINER = Container (BASE_URL @ ''/bci/dotnet-runtime:5.0'') [] False,
       DOTNET_RUNTIME_6_0_CONTAINER = Container (BASE_URL @ ''/bci/dotnet-runtime:6.0'') [] False,
       INIT_CONTAINER = Container
         (DEFAULT_REGISTRY @ ''/suse/sle-15-sp3/update/cr/totest/images/bci/init:15.3'')
         (if docker_selected
          then [''--privileged'', ''--tmpfs'', ''/tmp'', ''--tmpfs'', ''/run'', ''-v'',
                ''/sys/fs/cgroup:/sys/fs/cgroup:ro,z'', ''-e'', ''container=docker'']
          else [])
         True \<rparr>"

text \<open>
  Line 144:
  \<^verbatim>\<open>f"RUN sed -i 's|baseurl.*|baseurl={BCI_DEVEL_REPO}|' /etc/zypp/repos.d/SLE_BCI.repo"\<close>
  (\<open>CHR 0x27\<close> is the single quote).
\<close>

definition REPLACE_REPO_CONTAINERFILE_of :: "string \<Rightarrow> string" where
  "REPLACE_REPO_CONTAINERFILE_of BCI_DEVEL_REPO =
     ''RUN sed -i '' @ [CHR 0x27] @ ''s|baseurl.*|baseurl='' @ BCI_DEVEL_REPO @ ''|'' @ [CHR 0x27]
       @ '' /etc/zypp/repos.d/SLE_BCI.repo''"

text \<open>
  Lines 167--171:
  \<^verbatim>\<open>DerivedContainer(base=cont.url, containerfile=REPLACE_REPO_CONTAINERFILE,
       **{k: v for (k, v) in cont.__dict__.items() if k != "url"})\<close>
  It is only ever applied to a \<open>Container\<close>.
\<close>

definition derive :: "string \<Rightarrow> container \<Rightarrow> container" where
  "derive replace_repo_containerfile cont =
     DerivedContainer (url cont) replace_repo_containerfile
       (extra_launch_args cont) (default_entry_point cont)"

text \<open>
  Lines 146--193: the nineteen names of the tuple are rebound to the derived
  containers; \<open>MINIMAL_CONTAINER\<close> and \<open>MICRO_CONTAINER\<close> are not in the tuple.
\<close>

definition replace_repo :: "string \<Rightarrow> containers \<Rightarrow> containers" where
  "replace_repo f cs =
     cs \<lparr> BASE_CONTAINER := derive f (BASE_CONTAINER cs),
          GO_1_16_CONTAINER := derive f (GO_1_16_CONTAINER cs),
          GO_1_17_CONTAINER := derive f (GO_1_17_CONTAINER cs),
          OPENJDK_11_CONTAINER := derive f (OPENJDK_11_CONTAINER cs),
          OPENJDK_DEVEL_11_CONTAINER := derive f (OPENJDK_DEVEL_11_CONTAINER cs),
          NODEJS_12_CONTAINER := derive f (NODEJS_12_CONTAINER cs),
          NODEJS_14_CONTAINER := derive f (NODEJS_14_CONTAINER cs),
          PYTHON36_CONTAINER := derive f (PYTHON36_CONTAINER cs),
          PYTHON39_CONTAINER := derive f (PYTHON39_CONTAINER cs),
          DOTNET_SDK_3_1_CONTAINER := derive f (DOTNET_SDK_3_1_CONTAINER cs),
          DOTNET_SDK_5_0_CONTAINER := derive f (DOTNET_SDK_5_0_CONTAINER cs),
          DOTNET_SDK_6_0_CONTAINER := derive f (DOTNET_SDK_6_0_CONTAINER cs),
          DOTNET_ASPNET_3_1_CONTAINER := derive f (DOTNET_ASPNET_3_1_CONTAINER cs),
          DOTNET_ASPNET_5_0_CONTAINER := derive f (DOTNET_ASPNET_5_0_CONTAINER cs),
          DOTNET_ASPNET_6_0_CONTAINER := derive f (DOTNET_ASPNET_6_0_CONTAINER cs),
          DOTNET_RUNTIME_3_1_CONTAINER := derive f (DOTNET_RUNTIME_3_1_CONTAINER cs),
          DOTNET_RUNTIME_5_0_CONTAINER := derive f (DOTNET_RUNTIME_5_0_CONTAINER cs),
          DOTNET_RUNTIME_6_0_CONTAINER := derive f (DOTNET_RUNTIME_6_0_CONTAINER cs),
          INIT_CONTAINER := derive f (INIT_CONTAINER cs) \<rparr>"

text \<open>The tuple of names on the left of that assignment, in order.\<close>

definition repo_bearing :: "containers \<Rightarrow> container list" where
  "repo_bearing cs =
     [BASE_CONTAINER cs, GO_1_16_CONTAINER cs, GO_1_17_CONTAINER cs, OPENJDK_11_CONTAINER cs,
      OPENJDK_DEVEL_11_CONTAINER cs, NODEJS_12_CONTAINER cs, NODEJS_14_CONTAINER cs,
      PYTHON36_CONTAINER cs, PYTHON39_CONTAINER cs, DOTNET_SDK_3_1_CONTAINER cs,
      DOTNET_SDK_5_0_CONTAINER cs, DOTNET_SDK_6_0_CONTAINER cs, DOTNET_ASPNET_3_1_CONTAINER cs,
      DOTNET_ASPNET_5_0_CONTAINER cs, DOTNET_ASPNET_6_0_CONTAINER cs,
      DOTNET_RUNTIME_3_1_CONTAINER cs, DOTNET_RUNTIME_5_0_CONTAINER cs,
      DOTNET_RUNTIME_6_0_CONTAINER cs, INIT_CONTAINER cs]"

subsection \<open>The repoclosure helper\<close>

text \<open>
  Lines 198--208: two raw strings around \<open>BCI_DEVEL_REPO\<close>. \<open>CHR 0x0A\<close> is the line
  feed, \<open>CHR 0x5C\<close> the backslash (the strings are raw, so each of the echoed lines
  ends with a space, a backslash, the letter n, a backslash and a line feed), \<open>CHR 0x22\<close>
  the double quote.
\<close>

definition repoclosure_containerfile :: "string \<Rightarrow> string" where
  "repoclosure_containerfile repo =
     ''RUN dnf -y install '' @ [CHR 0x27] @ ''dnf-command(repoclosure)'' @ [CHR 0x27, CHR 0x0A]
     @ ''RUN rm -f /etc/yum.repos.d/*repo'' @ [CHR 0x0A]
     @ ''RUN echo $'' @ [CHR 0x27] @ ''[SLE_BCI] '' @ [CHR 0x5C] @ ''n'' @ [CHR 0x5C, CHR 0x0A]
     @ ''enabled=1 '' @ [CHR 0x5C] @ ''n'' @ [CHR 0x5C, CHR 0x0A]
     @ ''name='' @ [CHR 0x22] @ ''SLE BCI'' @ [CHR 0x22] @ '' '' @ [CHR 0x5C] @ ''n''
       @ [CHR 0x5C, CHR 0x0A]
     @ ''autorefresh=0 '' @ [CHR 0x5C] @ ''n'' @ [CHR 0x5C, CHR 0x0A]
     @ ''baseurl=''
     @ repo
     @ '' '' @ [CHR 0x5C] @ ''n'' @ [CHR 0x5C, CHR 0x0A]
     @ ''priority=100'' @ [CHR 0x27] @ '' > /etc/yum.repos.d/SLE_BCI.repo'' @ [CHR 0x0A]"

subsection \<open>The module\<close>

text \<open>
  The names the module binds. \<open>DOTNET_ARCH_SKIP_MARK\<close> is the condition of the
  \<open>skipif\<close> mark; \<open>REPLACE_REPO_CONTAINERFILE\<close> is bound only when \<open>BCI_DEVEL_REPO\<close> is
  set in the environment.
\<close>

record catalog =
  OS_VERSION :: string
  OS_MAJOR_VERSION :: int
  OS_SP_VERSION :: int
  OS_PRETTY_NAME :: string
  DOTNET_ARCH_SKIP_MARK :: bool
  BASE_URL :: string
  images :: containers
  BCI_DEVEL_REPO :: string
  REPLACE_REPO_CONTAINERFILE :: "string option"
  REPOCLOSURE_CONTAINER :: container
  DOTNET_CONTAINERS :: "container list"
  CONTAINERS_WITH_ZYPPER :: "container list"
  CONTAINERS_WITHOUT_ZYPPER :: "container list"
  ALL_CONTAINERS :: "container list"

text \<open>The module from line 22 on, without the assertion of lines 34--36; nothing here
  can raise.\<close>

definition module_body :: "environ \<Rightarrow> string \<Rightarrow> int \<Rightarrow> int \<Rightarrow> catalog" where
  "module_body env os_version major sp =
     (let pretty_name = getenv_default (getenv_OS_PRETTY_NAME env)
            (''SUSE Linux Enterprise Server '' @ str_int major @ '' SP'' @ str_int sp);
          skip_mark = (system_info_arch env \<noteq> ''x86_64'');
          base_url = DEFAULT_REGISTRY @ ''/suse/sle-'' @ str_int major @ ''-sp'' @ str_int sp
                       @ ''/update/cr/totest/images'';
          cs0 = remote_containers os_version base_url (DOCKER_SELECTED env);
          (repo, replace_file, cs) =
            (case getenv_BCI_DEVEL_REPO env of
               None \<Rightarrow>
                 (''https://updates.suse.com/SUSE/Products/SLE-BCI/15-SP3/''
                    @ system_info_arch env @ ''/product/'', None, cs0)
             | Some r \<Rightarrow>
                 (r, Some (REPLACE_REPO_CONTAINERFILE_of r),
                  replace_repo (REPLACE_REPO_CONTAINERFILE_of r) cs0));
          repoclosure = DerivedContainer ''registry.fedoraproject.org/fedora:latest''
                          (repoclosure_containerfile repo) [] False;
          dotnet = [DOTNET_SDK_3_1_CONTAINER cs, DOTNET_SDK_5_0_CONTAINER cs,
                    DOTNET_SDK_6_0_CONTAINER cs, DOTNET_ASPNET_3_1_CONTAINER cs,
                    DOTNET_ASPNET_5_0_CONTAINER cs, DOTNET_ASPNET_6_0_CONTAINER cs,
                    DOTNET_RUNTIME_3_1_CONTAINER cs, DOTNET_RUNTIME_5_0_CONTAINER cs,
                    DOTNET_RUNTIME_6_0_CONTAINER cs];
          with_zypper = [BASE_CONTAINER cs, GO_1_16_CONTAINER cs, GO_1_17_CONTAINER cs,
                         OPENJDK_11_CONTAINER cs, OPENJDK_DEVEL_11_CONTAINER cs,
                         NODEJS_12_CONTAINER cs, NODEJS_14_CONTAINER cs, PYTHON36_CONTAINER cs,
                         PYTHON39_CONTAINER cs, INIT_CONTAINER cs]
                        @ (if system_info_arch env = ''x86_64'' then dotnet else []);
          without_zypper = [MINIMAL_CONTAINER cs, MICRO_CONTAINER cs]
      in \<lparr> OS_VERSION = os_version,
           OS_MAJOR_VERSION = major,
           OS_SP_VERSION = sp,
           OS_PRETTY_NAME = pretty_name,
           DOTNET_ARCH_SKIP_MARK = skip_mark,
           BASE_URL = base_url,
           images = cs,
           BCI_DEVEL_REPO = repo,
           REPLACE_REPO_CONTAINERFILE = replace_file,
           REPOCLOSURE_CONTAINER = repoclosure,
           DOTNET_CONTAINERS = dotnet,
           CONTAINERS_WITH_ZYPPER = with_zypper,
           CONTAINERS_WITHOUT_ZYPPER = without_zypper,
           ALL_CONTAINERS = with_zypper @ without_zypper \<rparr>)"

text \<open>Line 19:
  \<^verbatim>\<open>OS_MAJOR_VERSION, OS_SP_VERSION = (int(ver) for ver in OS_VERSION.split("."))\<close>\<close>

definition parse_os_version :: "string \<Rightarrow> error + (int \<times> int)" where
  "parse_os_version os_version = unpack_2 (map py_int (split_chr os_version (CHR ''.'')))"

text \<open>
  Importing the module: line 17 reads \<open>OS_VERSION\<close> (default "15.3"), line 19 parses
  it, lines 34--36 assert that the major version is 15. Between line 19 and the
  assertion nothing can raise, so the assertion is checked right after the parse.
\<close>

definition bci_tester_data :: "environ \<Rightarrow> error + catalog" where
  "bci_tester_data env =
     (let os_version = getenv_default (getenv_OS_VERSION env) ''15.3'' in
      case parse_os_version os_version of
        Inl e \<Rightarrow> Inl e
      | Inr (major, sp) \<Rightarrow>
          if major = 15 then Inr (module_body env os_version major sp)
          else Inl AssertionError)"

section \<open>Verification rules of \<^verbatim>\<open>tests/test_base.py\<close>\<close>

subsection \<open>String helpers\<close>

text \<open>\<^verbatim>\<open>s.rpartition(sep)[2]\<close>: what follows the last occurrence of \<open>sep\<close>, and the
  whole string when \<open>sep\<close> does not occur.\<close>

definition rpartition_2 :: "string \<Rightarrow> char \<Rightarrow> string" where
  "rpartition_2 s sep = rev (takeWhile (\<lambda>c. c \<noteq> sep) (rev s))"

text \<open>\<^verbatim>\<open>s.startswith(p)\<close>\<close>

definition startswith :: "string \<Rightarrow> string \<Rightarrow> bool" where
  "startswith s p = (take (length p) s = p)"

subsection \<open>Size limits (\<^verbatim>\<open>test_base_size\<close>)\<close>

text \<open>
  \<^verbatim>\<open>is_fips_ctr = (container.baseurl and
       container.baseurl.rpartition("/")[2].startswith("bci-base-fips"))\<close>

  \<open>baseurl\<close> is \<open>None\<close> or a string; \<open>None\<close> and the empty string are falsy, and the
  value is only used as a condition.
\<close>

definition is_fips_ctr :: "string option \<Rightarrow> bool" where
  "is_fips_ctr baseurl =
     (case baseurl of
        None \<Rightarrow> False
      | Some u \<Rightarrow> u \<noteq> [] \<and> startswith (rpartition_2 u (CHR ''/'')) ''bci-base-fips'')"

text \<open>The \<open>if\<close>/\<open>elif\<close> chain choosing the dictionary of size limits per architecture,
  in MiB. A dictionary literal is an association list, read with \<^const>\<open>map_of\<close>.\<close>

definition base_container_max_size :: "string \<Rightarrow> bool \<Rightarrow> (string \<times> int) list" where
  "base_container_max_size os_version fips_ctr =
     (if os_version \<in> set [''basalt'', ''tumbleweed''] \<or> fips_ctr then
        [(''x86_64'', 132), (''aarch64'', 158), (''ppc64le'', 179), (''s390x'', 136)]
      else if os_version \<in> set [''15.6''] then
        [(''x86_64'', 139), (''aarch64'', 160), (''ppc64le'', 184), (''s390x'', 141)]
      else if os_version \<in> set [''15.4'', ''15.5''] then
        [(''x86_64'', 124), (''aarch64'', 143), (''ppc64le'', 165), (''s390x'', 127)]
      else
        [(''x86_64'', 120), (''aarch64'', 140), (''ppc64le'', 160), (''s390x'', 125)])"

text \<open>\<^verbatim>\<open>d[k]\<close> on a dictionary raises \<open>KeyError\<close> for a missing key.\<close>

definition getitem :: "('k \<times> 'v) list \<Rightarrow> 'k \<Rightarrow> error + 'v" where
  "getitem d k = (case map_of d k of None \<Rightarrow> Inl KeyError | Some v \<Rightarrow> Inr v)"

text \<open>\<^verbatim>\<open>max_container_size = base_container_max_size[LOCALHOST.system_info.arch]\<close>,
  as a function of the container's \<open>baseurl\<close>, \<open>OS_VERSION\<close> and the host architecture.\<close>

definition max_container_size :: "string option \<Rightarrow> string \<Rightarrow> string \<Rightarrow> error + int" where
  "max_container_size baseurl os_version arch =
     getitem (base_container_max_size os_version (is_fips_ctr baseurl)) arch"

text \<open>
  The rest of \<^verbatim>\<open>test_base_size\<close>: the image size in bytes is floor-divided by
  \<open>1024 * 1024\<close> and asserted to be at most the limit. The lookup comes after the
  size is read and before the assertion.
\<close>

definition test_base_size :: "string option \<Rightarrow> string \<Rightarrow> string \<Rightarrow> int \<Rightarrow> error + unit" where
  "test_base_size baseurl os_version arch image_size =
     (let container_size = image_size div (1024 * 1024) in
      case max_container_size baseurl os_version arch of
        Inl e \<Rightarrow> Inl e
      | Inr limit \<Rightarrow> if container_size \<le> limit then Inr () else Inl AssertionError)"

subsection \<open>Expected digests (\<^verbatim>\<open>test_all_openssl_hashes_known\<close>)\<close>

text \<open>
  \<^verbatim>\<open>
  expected_digest_list = ALL_DIGESTS
  if OS_VERSION in ("basalt", "tumbleweed", "15.6"):
      if host_fips_enabled() or target_fips_enforced():
          expected_digest_list = FIPS_DIGESTS
  if OS_VERSION not in ("basalt", "tumbleweed", "15.6"):
      expected_digest_list += ("gost",)
  \<close>

  \<open>ALL_DIGESTS\<close> and \<open>FIPS_DIGESTS\<close> are tuples of \<^verbatim>\<open>bci_tester/fips.py\<close>, and the two
  FIPS predicates are functions of it; that module is not part of the sources at hand,
  so the four are parameters here (the two tuples are modelled from the spec
  below). On a tuple \<open>+=\<close> builds a new tuple, so
  \<open>ALL_DIGESTS\<close> itself is not changed.
\<close>

definition expected_digest_list ::
  "string list \<Rightarrow> string list \<Rightarrow> string \<Rightarrow> bool \<Rightarrow> bool \<Rightarrow> string list" where
  "expected_digest_list ALL_DIGESTS FIPS_DIGESTS os_version host_fips_enabled target_fips_enforced =
     (let l0 = ALL_DIGESTS;
          l1 = (if os_version \<in> set [''basalt'', ''tumbleweed'', ''15.6'']
                then (if host_fips_enabled \<or> target_fips_enforced then FIPS_DIGESTS else l0)
                else l0);
          l2 = (if os_version \<notin> set [''basalt'', ''tumbleweed'', ''15.6'']
                then l1 @ [''gost'']
                else l1)
      in l2)"

subsection \<open>The digest tables\<close>

text \<open>
  Modelled from the spec: the digest tables \<open>ALL_DIGESTS\<close> and \<open>FIPS_DIGESTS\<close> of
  \<^verbatim>\<open>bci_tester/fips.py\<close>, a module that is not among the sources. The spec describes
  them as "an ordered sequence of hash-algorithm names, with a FIPS-restricted subset",
  the subset "containing only FIPS-approved names" and "excluding at least one digest
  present in the full list". A digest set is the ordered list of the names, each with
  whether it is FIPS-approved, in which at least one name is not approved.
\<close>

typedef digest_set =
  "{t :: (string \<times> bool) list. \<exists>n \<in> fst ` set t. (n, True) \<notin> set t}"
  by (rule exI [of _ "[([], False)]"]) simp

text \<open>Modelled from the spec: \<open>ALL_DIGESTS\<close>, the full list of names, in order.\<close>

definition ALL_DIGESTS_of :: "digest_set \<Rightarrow> string list" where
  "ALL_DIGESTS_of ds = map fst (Rep_digest_set ds)"

text \<open>Modelled from the spec: \<open>FIPS_DIGESTS\<close>, the FIPS-approved names of the full list, in
  order.\<close>

definition FIPS_DIGESTS_of :: "digest_set \<Rightarrow> string list" where
  "FIPS_DIGESTS_of ds = map fst (filter snd (Rep_digest_set ds))"

text \<open>Modelled from the spec: whether a name is FIPS-approved according to the table.\<close>

definition fips_approved :: "digest_set \<Rightarrow> string \<Rightarrow> bool" where
  "fips_approved ds n = ((n, True) \<in> set (Rep_digest_set ds))"

section \<open>Helper lemmas\<close>

declare str_nat.simps [simp del]

lemma bci_tester_data_Inr:
  "bci_tester_data env = Inr c \<longleftrightarrow>
     (\<exists>sp. parse_os_version (getenv_default (getenv_OS_VERSION env) ''15.3'') = Inr (15, sp) \<and>
           c = module_body env (getenv_default (getenv_OS_VERSION env) ''15.3'') 15 sp)"
  unfolding bci_tester_data_def Let_def
  by (auto split: sum.splits prod.splits)

lemma images_module_body:
  "images (module_body env v major sp) =
     (case getenv_BCI_DEVEL_REPO env of
        None \<Rightarrow> remote_containers v
                  (DEFAULT_REGISTRY @ ''/suse/sle-'' @ str_int major @ ''-sp'' @ str_int sp
                     @ ''/update/cr/totest/images'') (DOCKER_SELECTED env)
      | Some r \<Rightarrow> replace_repo (REPLACE_REPO_CONTAINERFILE_of r)
                  (remote_containers v
                    (DEFAULT_REGISTRY @ ''/suse/sle-'' @ str_int major @ ''-sp'' @ str_int sp
                       @ ''/update/cr/totest/images'') (DOCKER_SELECTED env)))"
  unfolding module_body_def Let_def
  by (simp split: option.splits)

lemma repo_bearing_replace_repo:
  "repo_bearing (replace_repo f cs) = map (derive f) (repo_bearing cs)"
  unfolding repo_bearing_def replace_repo_def by simp

lemma repo_bearing_remote:
  "list_all is_Container (repo_bearing (remote_containers v b d))"
  unfolding repo_bearing_def remote_containers_def by simp

section \<open>Properties of the verification rules\<close>

lemma getitem_4:
  "getitem [(''x86_64'', a), (''aarch64'', b), (''ppc64le'', c), (''s390x'', d)] k =
     (if k = ''x86_64'' then Inr a else if k = ''aarch64'' then Inr b
      else if k = ''ppc64le'' then Inr c else if k = ''s390x'' then Inr d else Inl KeyError)"
  unfolding getitem_def by simp

text \<open>
  C5: for every \<open>os_version\<close> and every container (FIPS container or not), the
  size-limit lookup returns a positive integer on each of the four architectures
  x86_64, aarch64, ppc64le and s390x, and raises \<open>KeyError\<close> on any other architecture.
\<close>

theorem max_container_size_total:
  "(arch \<in> {''x86_64'', ''aarch64'', ''ppc64le'', ''s390x''} \<longrightarrow>
      (\<exists>n. max_container_size baseurl os_version arch = Inr n \<and> 0 < n)) \<and>
   (arch \<notin> {''x86_64'', ''aarch64'', ''ppc64le'', ''s390x''} \<longrightarrow>
      max_container_size baseurl os_version arch = Inl KeyError)"
  unfolding max_container_size_def base_container_max_size_def
  by (simp add: getitem_4)

theorem max_container_size_total_witness:
  "(\<exists>n. max_container_size None ''15.6'' ''aarch64'' = Inr n \<and> 0 < n) \<and>
   max_container_size None ''15.3'' ''riscv64'' = Inl KeyError"
  using max_container_size_total [of "''aarch64''" None "''15.6''"]
        max_container_size_total [of "''riscv64''" None "''15.3''"]
  by simp

lemma FIPS_DIGESTS_of_strict: "set (FIPS_DIGESTS_of ds) \<subset> set (ALL_DIGESTS_of ds)"
proof -
  from Rep_digest_set [of ds] obtain n where
    n: "n \<in> fst ` set (Rep_digest_set ds)" and f: "(n, True) \<notin> set (Rep_digest_set ds)"
    by blast
  have sub: "set (FIPS_DIGESTS_of ds) \<subseteq> set (ALL_DIGESTS_of ds)"
    unfolding FIPS_DIGESTS_of_def ALL_DIGESTS_of_def by auto
  from n have a: "n \<in> set (ALL_DIGESTS_of ds)"
    unfolding ALL_DIGESTS_of_def by simp
  from f have b: "n \<notin> set (FIPS_DIGESTS_of ds)"
    unfolding FIPS_DIGESTS_of_def by auto
  from sub a b show ?thesis by blast
qed

lemma FIPS_DIGESTS_of_approved: "n \<in> set (FIPS_DIGESTS_of ds) \<Longrightarrow> fips_approved ds n"
  unfolding FIPS_DIGESTS_of_def fips_approved_def by auto

lemma sample_digest_set:
  "Rep_digest_set (Abs_digest_set [(''md5'', False), (''sha1'', True), (''sha256'', True)])
     = [(''md5'', False), (''sha1'', True), (''sha256'', True)]"
  by (rule Abs_digest_set_inverse) simp

text \<open>
  C3 (as amended): with both FIPS flags false the expected list is \<open>ALL_DIGESTS\<close> for the
  three buckets "basalt", "tumbleweed" and "15.6", and \<open>ALL_DIGESTS\<close> followed by "gost"
  for every other \<open>OS_VERSION\<close>. For the three buckets with either flag true it is
  \<open>FIPS_DIGESTS\<close>, which is a strict subset of \<open>ALL_DIGESTS\<close> and holds only
  FIPS-approved names.
\<close>

theorem expected_digest_list_cases:
  "(\<not> host_fips \<and> \<not> target_fips \<longrightarrow>
      (os_version \<in> {''basalt'', ''tumbleweed'', ''15.6''} \<longrightarrow>
         expected_digest_list (ALL_DIGESTS_of ds) (FIPS_DIGESTS_of ds) os_version
           host_fips target_fips = ALL_DIGESTS_of ds) \<and>
      (os_version \<notin> {''basalt'', ''tumbleweed'', ''15.6''} \<longrightarrow>
         expected_digest_list (ALL_DIGESTS_of ds) (FIPS_DIGESTS_of ds) os_version
           host_fips target_fips = ALL_DIGESTS_of ds @ [''gost''])) \<and>
   (os_version \<in> {''basalt'', ''tumbleweed'', ''15.6''} \<and> (host_fips \<or> target_fips) \<longrightarrow>
      expected_digest_list (ALL_DIGESTS_of ds) (FIPS_DIGESTS_of ds) os_version
        host_fips target_fips = FIPS_DIGESTS_of ds \<and>
      set (expected_digest_list (ALL_DIGESTS_of ds) (FIPS_DIGESTS_of ds) os_version
             host_fips target_fips) \<subset> set (ALL_DIGESTS_of ds) \<and>
      (\<forall>n \<in> set (expected_digest_list (ALL_DIGESTS_of ds) (FIPS_DIGESTS_of ds) os_version
                      host_fips target_fips). fips_approved ds n))"
proof -
  have 1: "expected_digest_list (ALL_DIGESTS_of ds) (FIPS_DIGESTS_of ds) os_version
             host_fips target_fips = ALL_DIGESTS_of ds"
    if "\<not> host_fips" "\<not> target_fips" "os_version \<in> {''basalt'', ''tumbleweed'', ''15.6''}"
    using that by (simp add: expected_digest_list_def)
  have 2: "expected_digest_list (ALL_DIGESTS_of ds) (FIPS_DIGESTS_of ds) os_version
             host_fips target_fips = ALL_DIGESTS_of ds @ [''gost'']"
    if "os_version \<notin> {''basalt'', ''tumbleweed'', ''15.6''}"
    using that by (simp add: expected_digest_list_def)
  have 3: "expected_digest_list (ALL_DIGESTS_of ds) (FIPS_DIGESTS_of ds) os_version
             host_fips target_fips = FIPS_DIGESTS_of ds"
    if "os_version \<in> {''basalt'', ''tumbleweed'', ''15.6''}" "host_fips \<or> target_fips"
    using that by (simp add: expected_digest_list_def)
  have 4: "set (expected_digest_list (ALL_DIGESTS_of ds) (FIPS_DIGESTS_of ds) os_version
             host_fips target_fips) \<subset> set (ALL_DIGESTS_of ds)"
    if "os_version \<in> {''basalt'', ''tumbleweed'', ''15.6''}" "host_fips \<or> target_fips"
    unfolding 3 [OF that] by (rule FIPS_DIGESTS_of_strict)
  have 5: "\<forall>n \<in> set (expected_digest_list (ALL_DIGESTS_of ds) (FIPS_DIGESTS_of ds) os_version
                      host_fips target_fips). fips_approved ds n"
    if "os_version \<in> {''basalt'', ''tumbleweed'', ''15.6''}" "host_fips \<or> target_fips"
    unfolding 3 [OF that] by (intro ballI) (rule FIPS_DIGESTS_of_approved)
  from 1 2 3 4 5 show ?thesis by blast
qed

theorem expected_digest_list_cases_witness:
  "expected_digest_list
     (ALL_DIGESTS_of (Abs_digest_set [(''md5'', False), (''sha1'', True), (''sha256'', True)]))
     (FIPS_DIGESTS_of (Abs_digest_set [(''md5'', False), (''sha1'', True), (''sha256'', True)]))
     ''15.6'' False False = [''md5'', ''sha1'', ''sha256''] \<and>
   expected_digest_list
     (ALL_DIGESTS_of (Abs_digest_set [(''md5'', False), (''sha1'', True), (''sha256'', True)]))
     (FIPS_DIGESTS_of (Abs_digest_set [(''md5'', False), (''sha1'', True), (''sha256'', True)]))
     ''15.5'' False False = [''md5'', ''sha1'', ''sha256'', ''gost''] \<and>
   expected_digest_list
     (ALL_DIGESTS_of (Abs_digest_set [(''md5'', False), (''sha1'', True), (''sha256'', True)]))
     (FIPS_DIGESTS_of (Abs_digest_set [(''md5'', False), (''sha1'', True), (''sha256'', True)]))
     ''tumbleweed'' True False = [''sha1'', ''sha256''] \<and>
   set (expected_digest_list
     (ALL_DIGESTS_of (Abs_digest_set [(''md5'', False), (''sha1'', True), (''sha256'', True)]))
     (FIPS_DIGESTS_of (Abs_digest_set [(''md5'', False), (''sha1'', True), (''sha256'', True)]))
     ''tumbleweed'' True False) \<subset> set [''md5'', ''sha1'', ''sha256'']"
proof -
  let ?ds = "Abs_digest_set [(''md5'', False), (''sha1'', True), (''sha256'', True)]"
  have all: "ALL_DIGESTS_of ?ds = [''md5'', ''sha1'', ''sha256'']"
    unfolding ALL_DIGESTS_of_def sample_digest_set by simp
  have fips: "FIPS_DIGESTS_of ?ds = [''sha1'', ''sha256'']"
    unfolding FIPS_DIGESTS_of_def sample_digest_set by simp
  have a: "expected_digest_list (ALL_DIGESTS_of ?ds) (FIPS_DIGESTS_of ?ds) ''15.6'' False False
             = ALL_DIGESTS_of ?ds"
    using expected_digest_list_cases [of False False "''15.6''" ?ds] by simp
  have b: "expected_digest_list (ALL_DIGESTS_of ?ds) (FIPS_DIGESTS_of ?ds) ''15.5'' False False
             = ALL_DIGESTS_of ?ds @ [''gost'']"
    using expected_digest_list_cases [of False False "''15.5''" ?ds] by simp
  have p: "''tumbleweed'' \<in> {''basalt'', ''tumbleweed'', ''15.6''} \<and> (True \<or> False)"
    by simp
  note c = expected_digest_list_cases [of True False "''tumbleweed''" ?ds,
      THEN conjunct2, THEN mp, OF p]
  from a have a': "expected_digest_list (ALL_DIGESTS_of ?ds) (FIPS_DIGESTS_of ?ds) ''15.6''
                     False False = [''md5'', ''sha1'', ''sha256'']"
    unfolding all [symmetric] .
  from b have b': "expected_digest_list (ALL_DIGESTS_of ?ds) (FIPS_DIGESTS_of ?ds) ''15.5''
                     False False = [''md5'', ''sha1'', ''sha256'', ''gost'']"
    by (simp only: all append.simps)
  from c [THEN conjunct1]
  have c1: "expected_digest_list (ALL_DIGESTS_of ?ds) (FIPS_DIGESTS_of ?ds)
              ''tumbleweed'' True False = [''sha1'', ''sha256'']"
    unfolding fips [symmetric] .
  from c [THEN conjunct2, THEN conjunct1]
  have c2: "set (expected_digest_list (ALL_DIGESTS_of ?ds) (FIPS_DIGESTS_of ?ds)
                  ''tumbleweed'' True False) \<subset> set [''md5'', ''sha1'', ''sha256'']"
    unfolding all [symmetric] .
  from a' b' c1 c2 show ?thesis by (intro conjI)
qed

text \<open>The claim C3 as written fails: for "15.5" with both flags false, the expected
  list is not \<open>ALL_DIGESTS\<close>.\<close>

theorem expected_digest_list_not_always_all:
  "expected_digest_list [''md5'', ''sha1'', ''sha256''] [''sha1'', ''sha256''] ''15.5'' False False
     \<noteq> [''md5'', ''sha1'', ''sha256'']"
  by (simp add: expected_digest_list_def)

text \<open>
  C4 (as amended): "gost" is appended, once and at the end of \<open>ALL_DIGESTS\<close>, exactly for
  the buckets outside "basalt", "tumbleweed" and "15.6", with or without FIPS; for
  these three buckets nothing is appended to the list chosen by the FIPS flags.
\<close>

theorem gost_appended_outside_openssl_3:
  "(os_version \<notin> {''basalt'', ''tumbleweed'', ''15.6''} \<longrightarrow>
      expected_digest_list ALL_DIGESTS FIPS_DIGESTS os_version host_fips target_fips
        = ALL_DIGESTS @ [''gost''] \<and>
      length (expected_digest_list ALL_DIGESTS FIPS_DIGESTS os_version host_fips target_fips)
        = length ALL_DIGESTS + 1) \<and>
   (os_version \<in> {''basalt'', ''tumbleweed'', ''15.6''} \<longrightarrow>
      expected_digest_list ALL_DIGESTS FIPS_DIGESTS os_version host_fips target_fips
        = (if host_fips \<or> target_fips then FIPS_DIGESTS else ALL_DIGESTS))"
  by (simp add: expected_digest_list_def)

theorem gost_appended_outside_openssl_3_witness:
  "expected_digest_list [''md5'', ''sha1''] [''sha1''] ''15.3'' True False = [''md5'', ''sha1'', ''gost''] \<and>
   expected_digest_list [''md5'', ''sha1''] [''sha1''] ''basalt'' False False = [''md5'', ''sha1''] \<and>
   expected_digest_list [''md5'', ''sha1''] [''sha1''] ''basalt'' False True = [''sha1'']"
  using gost_appended_outside_openssl_3 [of "''15.3''" "[''md5'', ''sha1'']" "[''sha1'']" True False]
        gost_appended_outside_openssl_3 [of "''basalt''" "[''md5'', ''sha1'']" "[''sha1'']" False False]
        gost_appended_outside_openssl_3 [of "''basalt''" "[''md5'', ''sha1'']" "[''sha1'']" False True]
  by simp

text \<open>The claim C4 as written fails in both directions: for "15.6" without FIPS nothing
  is appended, and for "15.5" "gost" is.\<close>

theorem gost_polarity_counterexample:
  "expected_digest_list [''md5'', ''sha1'', ''sha256''] [''sha1'', ''sha256''] ''15.6'' False False
     = [''md5'', ''sha1'', ''sha256''] \<and>
   expected_digest_list [''md5'', ''sha1'', ''sha256''] [''sha1'', ''sha256''] ''15.5'' False False
     = [''md5'', ''sha1'', ''sha256''] @ [''gost'']"
  by (simp add: expected_digest_list_def)

section \<open>Properties of the image catalog\<close>

lemma module_body_unset:
  "getenv_BCI_DEVEL_REPO env = Some r \<Longrightarrow>
   images (module_body (env\<lparr>getenv_BCI_DEVEL_REPO := None\<rparr>) v major sp)
     = remote_containers v
         (DEFAULT_REGISTRY @ ''/suse/sle-'' @ str_int major @ ''-sp'' @ str_int sp
            @ ''/update/cr/totest/images'') (DOCKER_SELECTED env)"
  by (simp add: images_module_body)

lemma images_replace:
  "getenv_BCI_DEVEL_REPO env = Some r \<Longrightarrow>
   images (module_body env v major sp)
     = replace_repo (REPLACE_REPO_CONTAINERFILE_of r)
         (images (module_body (env\<lparr>getenv_BCI_DEVEL_REPO := None\<rparr>) v major sp))"
  by (simp add: images_module_body)

lemma exempt_replace_repo:
  "MINIMAL_CONTAINER (replace_repo f cs) = MINIMAL_CONTAINER cs"
  "MICRO_CONTAINER (replace_repo f cs) = MICRO_CONTAINER cs"
  unfolding replace_repo_def by simp_all

lemma exempt_remote:
  "is_Container (MINIMAL_CONTAINER (remote_containers v b d))"
  "is_Container (MICRO_CONTAINER (remote_containers v b d))"
  unfolding remote_containers_def by simp_all

lemma data_unset:
  "bci_tester_data env = Inr c \<Longrightarrow>
   \<exists>sp. c = module_body env (getenv_default (getenv_OS_VERSION env) ''15.3'') 15 sp \<and>
     bci_tester_data (env\<lparr>getenv_BCI_DEVEL_REPO := None\<rparr>)
       = Inr (module_body (env\<lparr>getenv_BCI_DEVEL_REPO := None\<rparr>)
               (getenv_default (getenv_OS_VERSION env) ''15.3'') 15 sp)"
  unfolding bci_tester_data_Inr by auto

lemma module_body_repo:
  "BCI_DEVEL_REPO (module_body env v major sp) =
     (case getenv_BCI_DEVEL_REPO env of
        None \<Rightarrow> ''https://updates.suse.com/SUSE/Products/SLE-BCI/15-SP3/''
                  @ system_info_arch env @ ''/product/''
      | Some r \<Rightarrow> r)"
  "REPLACE_REPO_CONTAINERFILE (module_body env v major sp) =
     (case getenv_BCI_DEVEL_REPO env of
        None \<Rightarrow> None
      | Some r \<Rightarrow> Some (REPLACE_REPO_CONTAINERFILE_of r))"
  "REPOCLOSURE_CONTAINER (module_body env v major sp) =
     DerivedContainer ''registry.fedoraproject.org/fedora:latest''
       (repoclosure_containerfile (BCI_DEVEL_REPO (module_body env v major sp))) [] False"
  unfolding module_body_def Let_def
  by (simp_all split: option.splits)

text \<open>
  C1: when \<open>BCI_DEVEL_REPO\<close> is set to \<open>r\<close> and the module imports, every one of the
  nineteen repository-bearing names (the base, Go, OpenJDK, Node.js, Python, .NET and
  init images) is a \<open>DerivedContainer\<close> whose base is the URL the same name has
  without the override and whose containerfile is the one \<open>sed\<close> instruction that
  puts \<open>r\<close> in the \<open>baseurl\<close> line of the SLE_BCI repository file;
  \<open>MINIMAL_CONTAINER\<close> and \<open>MICRO_CONTAINER\<close> are unchanged plain containers.
\<close>

theorem repo_override_rewrites:
  assumes "bci_tester_data env = Inr c"
    and "getenv_BCI_DEVEL_REPO env = Some r"
  shows "\<exists>c0. bci_tester_data (env\<lparr>getenv_BCI_DEVEL_REPO := None\<rparr>) = Inr c0 \<and>
     list_all is_Container (repo_bearing (images c0)) \<and>
     list_all is_DerivedContainer (repo_bearing (images c)) \<and>
     map base (repo_bearing (images c)) = map url (repo_bearing (images c0)) \<and>
     (\<forall>d \<in> set (repo_bearing (images c)).
        containerfile d =
          ''RUN sed -i '' @ [CHR 0x27] @ ''s|baseurl.*|baseurl='' @ r @ ''|'' @ [CHR 0x27]
            @ '' /etc/zypp/repos.d/SLE_BCI.repo'') \<and>
     length (repo_bearing (images c)) = 19 \<and>
     MINIMAL_CONTAINER (images c) = MINIMAL_CONTAINER (images c0) \<and>
     MICRO_CONTAINER (images c) = MICRO_CONTAINER (images c0) \<and>
     is_Container (MINIMAL_CONTAINER (images c)) \<and>
     is_Container (MICRO_CONTAINER (images c))"
proof -
  from data_unset [OF assms(1)] obtain sp where
    c: "c = module_body env (getenv_default (getenv_OS_VERSION env) ''15.3'') 15 sp" and
    c0: "bci_tester_data (env\<lparr>getenv_BCI_DEVEL_REPO := None\<rparr>)
       = Inr (module_body (env\<lparr>getenv_BCI_DEVEL_REPO := None\<rparr>)
               (getenv_default (getenv_OS_VERSION env) ''15.3'') 15 sp)"
    by blast
  let ?u = "module_body (env\<lparr>getenv_BCI_DEVEL_REPO := None\<rparr>)
               (getenv_default (getenv_OS_VERSION env) ''15.3'') 15 sp"
  have i0: "images ?u = remote_containers (getenv_default (getenv_OS_VERSION env) ''15.3'')
         (DEFAULT_REGISTRY @ ''/suse/sle-'' @ str_int 15 @ ''-sp'' @ str_int sp
            @ ''/update/cr/totest/images'') (DOCKER_SELECTED env)"
    using module_body_unset [OF assms(2)] by simp
  have i: "images c = replace_repo (REPLACE_REPO_CONTAINERFILE_of r) (images ?u)"
    unfolding c using images_replace [OF assms(2)] by simp
  have rb: "repo_bearing (images c)
      = map (derive (REPLACE_REPO_CONTAINERFILE_of r)) (repo_bearing (images ?u))"
    unfolding i by (rule repo_bearing_replace_repo)
  have 1: "list_all is_Container (repo_bearing (images ?u))"
    unfolding i0 by (rule repo_bearing_remote)
  have 2: "list_all is_DerivedContainer (repo_bearing (images c))"
    unfolding rb by (simp add: list_all_iff derive_def)
  have 3: "map base (repo_bearing (images c)) = map url (repo_bearing (images ?u))"
    unfolding rb by (simp add: derive_def comp_def)
  have 4: "\<forall>d \<in> set (repo_bearing (images c)).
        containerfile d =
          ''RUN sed -i '' @ [CHR 0x27] @ ''s|baseurl.*|baseurl='' @ r @ ''|'' @ [CHR 0x27]
            @ '' /etc/zypp/repos.d/SLE_BCI.repo''"
    unfolding rb by (auto simp: derive_def REPLACE_REPO_CONTAINERFILE_of_def)
  have 5: "length (repo_bearing (images c)) = 19"
    unfolding repo_bearing_def by simp
  have 6: "MINIMAL_CONTAINER (images c) = MINIMAL_CONTAINER (images ?u)"
          "MICRO_CONTAINER (images c) = MICRO_CONTAINER (images ?u)"
    unfolding i by (rule exempt_replace_repo)+
  have 7: "is_Container (MINIMAL_CONTAINER (images c))" "is_Container (MICRO_CONTAINER (images c))"
    unfolding 6 i0 by (rule exempt_remote)+
  from c0 1 2 3 4 5 6 7 show ?thesis by blast
qed

lemma parse_os_version_15_3: "parse_os_version ''15.3'' = Inr (15, 3)"
  by (simp add: parse_os_version_def py_int_def strip_def isspace_def isdigit_def
      digit_value_def)

lemma bci_tester_data_15_3:
  "getenv_OS_VERSION env = Some ''15.3'' \<Longrightarrow>
   bci_tester_data env = Inr (module_body env ''15.3'' 15 3)"
  by (simp add: bci_tester_data_def getenv_default_def parse_os_version_15_3)

theorem repo_override_rewrites_witness:
  "\<exists>c. bci_tester_data
      \<lparr>getenv_OS_VERSION = Some ''15.3'', getenv_OS_PRETTY_NAME = None,
       getenv_BCI_DEVEL_REPO = Some ''http://example/repo/'',
       system_info_arch = ''x86_64'', DOCKER_SELECTED = True\<rparr> = Inr c \<and>
     list_all is_DerivedContainer (repo_bearing (images c)) \<and>
     containerfile (BASE_CONTAINER (images c)) =
       ''RUN sed -i '' @ [CHR 0x27] @ ''s|baseurl.*|baseurl=http://example/repo/|'' @ [CHR 0x27]
         @ '' /etc/zypp/repos.d/SLE_BCI.repo'' \<and>
     is_Container (MINIMAL_CONTAINER (images c)) \<and>
     is_Container (MICRO_CONTAINER (images c))"
proof -
  let ?e = "\<lparr>getenv_OS_VERSION = Some ''15.3'', getenv_OS_PRETTY_NAME = None,
       getenv_BCI_DEVEL_REPO = Some ''http://example/repo/'',
       system_info_arch = ''x86_64'', DOCKER_SELECTED = True\<rparr>"
  let ?c = "module_body ?e ''15.3'' 15 3"
  have d: "bci_tester_data ?e = Inr ?c"
    by (rule bci_tester_data_15_3) simp
  have r: "getenv_BCI_DEVEL_REPO ?e = Some ''http://example/repo/''"
    by simp
  have m: "BASE_CONTAINER (images ?c) \<in> set (repo_bearing (images ?c))"
    unfolding repo_bearing_def by simp
  from repo_override_rewrites [OF d r] obtain c0 where
    u: "bci_tester_data (?e\<lparr>getenv_BCI_DEVEL_REPO := None\<rparr>) = Inr c0" and
    f: "list_all is_DerivedContainer (repo_bearing (images ?c))"
       "\<forall>d \<in> set (repo_bearing (images ?c)). containerfile d =
          ''RUN sed -i '' @ [CHR 0x27] @ ''s|baseurl.*|baseurl='' @ ''http://example/repo/''
            @ ''|'' @ [CHR 0x27] @ '' /etc/zypp/repos.d/SLE_BCI.repo''"
       "is_Container (MINIMAL_CONTAINER (images ?c))"
       "is_Container (MICRO_CONTAINER (images ?c))"
    by blast
  from f(2) m have g: "containerfile (BASE_CONTAINER (images ?c)) =
       ''RUN sed -i '' @ [CHR 0x27] @ ''s|baseurl.*|baseurl=http://example/repo/|'' @ [CHR 0x27]
         @ '' /etc/zypp/repos.d/SLE_BCI.repo''"
    by simp
  from d f(1) g f(3) f(4) show ?thesis by blast
qed

text \<open>
  C2: the rewriting keeps the other attributes: for each of the nineteen
  repository-bearing names, \<open>extra_launch_args\<close> and \<open>default_entry_point\<close> are the
  same with and without the override.
\<close>

theorem repo_override_frame:
  assumes "bci_tester_data env = Inr c"
    and "getenv_BCI_DEVEL_REPO env = Some r"
  shows "\<exists>c0. bci_tester_data (env\<lparr>getenv_BCI_DEVEL_REPO := None\<rparr>) = Inr c0 \<and>
     length (repo_bearing (images c)) = 19 \<and>
     map extra_launch_args (repo_bearing (images c))
       = map extra_launch_args (repo_bearing (images c0)) \<and>
     map default_entry_point (repo_bearing (images c))
       = map default_entry_point (repo_bearing (images c0))"
proof -
  from data_unset [OF assms(1)] obtain sp where
    c: "c = module_body env (getenv_default (getenv_OS_VERSION env) ''15.3'') 15 sp" and
    c0: "bci_tester_data (env\<lparr>getenv_BCI_DEVEL_REPO := None\<rparr>)
       = Inr (module_body (env\<lparr>getenv_BCI_DEVEL_REPO := None\<rparr>)
               (getenv_default (getenv_OS_VERSION env) ''15.3'') 15 sp)"
    by blast
  let ?u = "module_body (env\<lparr>getenv_BCI_DEVEL_REPO := None\<rparr>)
               (getenv_default (getenv_OS_VERSION env) ''15.3'') 15 sp"
  have i: "images c = replace_repo (REPLACE_REPO_CONTAINERFILE_of r) (images ?u)"
    unfolding c using images_replace [OF assms(2)] by simp
  have rb: "repo_bearing (images c)
      = map (derive (REPLACE_REPO_CONTAINERFILE_of r)) (repo_bearing (images ?u))"
    unfolding i by (rule repo_bearing_replace_repo)
  have 1: "length (repo_bearing (images c)) = 19"
    unfolding repo_bearing_def by simp
  have 2: "map extra_launch_args (repo_bearing (images c))
       = map extra_launch_args (repo_bearing (images ?u))"
    unfolding rb by (simp add: derive_def comp_def)
  have 3: "map default_entry_point (repo_bearing (images c))
       = map default_entry_point (repo_bearing (images ?u))"
    unfolding rb by (simp add: derive_def comp_def)
  from c0 1 2 3 show ?thesis by blast
qed

theorem repo_override_frame_witness:
  "\<exists>c. bci_tester_data
      \<lparr>getenv_OS_VERSION = Some ''15.3'', getenv_OS_PRETTY_NAME = None,
       getenv_BCI_DEVEL_REPO = Some ''http://example/repo/'',
       system_info_arch = ''x86_64'', DOCKER_SELECTED = True\<rparr> = Inr c \<and>
     extra_launch_args (INIT_CONTAINER (images c)) =
       [''--privileged'', ''--tmpfs'', ''/tmp'', ''--tmpfs'', ''/run'', ''-v'',
        ''/sys/fs/cgroup:/sys/fs/cgroup:ro,z'', ''-e'', ''container=docker''] \<and>
     default_entry_point (INIT_CONTAINER (images c))"
proof -
  let ?e = "\<lparr>getenv_OS_VERSION = Some ''15.3'', getenv_OS_PRETTY_NAME = None,
       getenv_BCI_DEVEL_REPO = Some ''http://example/repo/'',
       system_info_arch = ''x86_64'', DOCKER_SELECTED = True\<rparr>"
  let ?c = "module_body ?e ''15.3'' 15 3"
  let ?u = "module_body (?e\<lparr>getenv_BCI_DEVEL_REPO := None\<rparr>) ''15.3'' 15 3"
  have d: "bci_tester_data ?e = Inr ?c"
    by (rule bci_tester_data_15_3) simp
  have d0: "bci_tester_data (?e\<lparr>getenv_BCI_DEVEL_REPO := None\<rparr>) = Inr ?u"
    by (rule bci_tester_data_15_3) simp
  have r: "getenv_BCI_DEVEL_REPO ?e = Some ''http://example/repo/''"
    by simp
  from repo_override_frame [OF d r] d0 have
    a: "map extra_launch_args (repo_bearing (images ?c))
          = map extra_launch_args (repo_bearing (images ?u))" and
    b: "map default_entry_point (repo_bearing (images ?c))
          = map default_entry_point (repo_bearing (images ?u))"
    by auto
  have i0: "extra_launch_args (INIT_CONTAINER (images ?u)) =
       [''--privileged'', ''--tmpfs'', ''/tmp'', ''--tmpfs'', ''/run'', ''-v'',
        ''/sys/fs/cgroup:/sys/fs/cgroup:ro,z'', ''-e'', ''container=docker'']"
       "default_entry_point (INIT_CONTAINER (images ?u))"
    by (simp_all add: images_module_body remote_containers_def)
  from a have "extra_launch_args (INIT_CONTAINER (images ?c))
                 = extra_launch_args (INIT_CONTAINER (images ?u))"
    unfolding repo_bearing_def by simp
  moreover from b have "default_entry_point (INIT_CONTAINER (images ?c))
                 = default_entry_point (INIT_CONTAINER (images ?u))"
    unfolding repo_bearing_def by simp
  ultimately show ?thesis using d i0 by auto
qed

text \<open>
  C10: when \<open>BCI_DEVEL_REPO\<close> is unset it gets the default that depends on the
  architecture, and every image stays a plain container; when it is set its value
  is kept. In both cases the containerfile of the repoclosure helper has the value as
  the \<open>baseurl\<close> of its SLE_BCI entry.
\<close>

theorem devel_repo_default_and_repoclosure:
  assumes "bci_tester_data env = Inr c"
  shows "(getenv_BCI_DEVEL_REPO env = None \<longrightarrow>
            BCI_DEVEL_REPO c = ''https://updates.suse.com/SUSE/Products/SLE-BCI/15-SP3/''
                                 @ system_info_arch env @ ''/product/'' \<and>
            list_all is_Container (repo_bearing (images c)) \<and>
            is_Container (MINIMAL_CONTAINER (images c)) \<and>
            is_Container (MICRO_CONTAINER (images c))) \<and>
         (\<forall>r. getenv_BCI_DEVEL_REPO env = Some r \<longrightarrow> BCI_DEVEL_REPO c = r) \<and>
         base (REPOCLOSURE_CONTAINER c) = ''registry.fedoraproject.org/fedora:latest'' \<and>
         containerfile (REPOCLOSURE_CONTAINER c) = repoclosure_containerfile (BCI_DEVEL_REPO c) \<and>
         (\<exists>pre. containerfile (REPOCLOSURE_CONTAINER c) =
            pre @ ''[SLE_BCI] '' @ [CHR 0x5C] @ ''n'' @ [CHR 0x5C, CHR 0x0A]
              @ ''enabled=1 '' @ [CHR 0x5C] @ ''n'' @ [CHR 0x5C, CHR 0x0A]
              @ ''name='' @ [CHR 0x22] @ ''SLE BCI'' @ [CHR 0x22] @ '' '' @ [CHR 0x5C] @ ''n''
              @ [CHR 0x5C, CHR 0x0A]
              @ ''autorefresh=0 '' @ [CHR 0x5C] @ ''n'' @ [CHR 0x5C, CHR 0x0A]
              @ ''baseurl='' @ BCI_DEVEL_REPO c @ '' '' @ [CHR 0x5C] @ ''n'' @ [CHR 0x5C, CHR 0x0A]
              @ ''priority=100'' @ [CHR 0x27] @ '' > /etc/yum.repos.d/SLE_BCI.repo''
              @ [CHR 0x0A])"
proof -
  from assms obtain sp where
    c: "c = module_body env (getenv_default (getenv_OS_VERSION env) ''15.3'') 15 sp"
    unfolding bci_tester_data_Inr by blast
  have 1: "getenv_BCI_DEVEL_REPO env = None \<longrightarrow>
            BCI_DEVEL_REPO c = ''https://updates.suse.com/SUSE/Products/SLE-BCI/15-SP3/''
                                 @ system_info_arch env @ ''/product/''"
    unfolding c by (simp add: module_body_repo)
  have 2: "getenv_BCI_DEVEL_REPO env = None \<longrightarrow> list_all is_Container (repo_bearing (images c))"
    unfolding c by (simp add: images_module_body repo_bearing_remote)
  have 3: "getenv_BCI_DEVEL_REPO env = None \<longrightarrow>
             is_Container (MINIMAL_CONTAINER (images c)) \<and> is_Container (MICRO_CONTAINER (images c))"
    unfolding c by (simp add: images_module_body exempt_remote)
  have 4: "\<forall>r. getenv_BCI_DEVEL_REPO env = Some r \<longrightarrow> BCI_DEVEL_REPO c = r"
    unfolding c by (simp add: module_body_repo)
  have 5: "base (REPOCLOSURE_CONTAINER c) = ''registry.fedoraproject.org/fedora:latest''"
    unfolding c by (simp add: module_body_repo(3))
  have 6: "containerfile (REPOCLOSURE_CONTAINER c) = repoclosure_containerfile (BCI_DEVEL_REPO c)"
    unfolding c by (simp add: module_body_repo(3))
  have 7: "\<exists>pre. repoclosure_containerfile (BCI_DEVEL_REPO c) =
            pre @ ''[SLE_BCI] '' @ [CHR 0x5C] @ ''n'' @ [CHR 0x5C, CHR 0x0A]
              @ ''enabled=1 '' @ [CHR 0x5C] @ ''n'' @ [CHR 0x5C, CHR 0x0A]
              @ ''name='' @ [CHR 0x22] @ ''SLE BCI'' @ [CHR 0x22] @ '' '' @ [CHR 0x5C] @ ''n''
              @ [CHR 0x5C, CHR 0x0A]
              @ ''autorefresh=0 '' @ [CHR 0x5C] @ ''n'' @ [CHR 0x5C, CHR 0x0A]
              @ ''baseurl='' @ BCI_DEVEL_REPO c @ '' '' @ [CHR 0x5C] @ ''n'' @ [CHR 0x5C, CHR 0x0A]
              @ ''priority=100'' @ [CHR 0x27] @ '' > /etc/yum.repos.d/SLE_BCI.repo''
              @ [CHR 0x0A]"
    unfolding repoclosure_containerfile_def
    by (rule exI [where x = "''RUN dnf -y install '' @ [CHR 0x27] @ ''dnf-command(repoclosure)''
          @ [CHR 0x27, CHR 0x0A] @ ''RUN rm -f /etc/yum.repos.d/*repo'' @ [CHR 0x0A]
          @ ''RUN echo $'' @ [CHR 0x27]"]) simp
  from 1 2 3 4 5 6 7 show ?thesis by (simp del: append.simps append_assoc)
qed

theorem devel_repo_default_and_repoclosure_witness:
  "\<exists>c. bci_tester_data
      \<lparr>getenv_OS_VERSION = Some ''15.3'', getenv_OS_PRETTY_NAME = None,
       getenv_BCI_DEVEL_REPO = None,
       system_info_arch = ''aarch64'', DOCKER_SELECTED = False\<rparr> = Inr c \<and>
     BCI_DEVEL_REPO c = ''https://updates.suse.com/SUSE/Products/SLE-BCI/15-SP3/aarch64/product/'' \<and>
     list_all is_Container (repo_bearing (images c)) \<and>
     containerfile (REPOCLOSURE_CONTAINER c) = repoclosure_containerfile (BCI_DEVEL_REPO c)"
proof -
  let ?e = "\<lparr>getenv_OS_VERSION = Some ''15.3'', getenv_OS_PRETTY_NAME = None,
       getenv_BCI_DEVEL_REPO = None,
       system_info_arch = ''aarch64'', DOCKER_SELECTED = False\<rparr>"
  have d: "bci_tester_data ?e = Inr (module_body ?e ''15.3'' 15 3)"
    by (rule bci_tester_data_15_3) simp
  from devel_repo_default_and_repoclosure [OF d] d show ?thesis
    by simp
qed

lemma py_int_error: "py_int s = Inl e \<Longrightarrow> e = ValueError"
  unfolding py_int_def Let_def
  by (auto split: list.splits if_splits option.splits prod.splits)

lemma unpack_2_error:
  "unpack_2 rs = Inl e \<Longrightarrow> \<forall>e'. Inl e' \<in> set rs \<longrightarrow> e' = ValueError \<Longrightarrow> e = ValueError"
  by (induction rs rule: unpack_2.induct) auto

lemma parse_os_version_error: "parse_os_version v = Inl e \<Longrightarrow> e = ValueError"
  unfolding parse_os_version_def
  by (erule unpack_2_error) (auto dest: py_int_error [OF sym])

lemma unpack_2_Inr:
  "unpack_2 rs = Inr (x, y) \<longleftrightarrow> rs = [Inr x, Inr y]"
  by (induction rs rule: unpack_2.induct) auto

lemma parse_os_version_Inr:
  "parse_os_version v = Inr (major, sp) \<longleftrightarrow>
     (\<exists>a b. split_chr v (CHR ''.'') = [a, b] \<and> py_int a = Inr major \<and> py_int b = Inr sp)"
  unfolding parse_os_version_def unpack_2_Inr
  by (auto simp: map_eq_Cons_conv)

lemma split_chr_no_sep: "sep \<notin> set s \<Longrightarrow> split_chr s sep = [s]"
  by (induction s) auto

lemma parse_os_version_no_dot:
  "CHR ''.'' \<notin> set v \<Longrightarrow> parse_os_version v = Inl ValueError"
  unfolding parse_os_version_def
  by (cases "py_int v") (auto simp: split_chr_no_sep dest: py_int_error)

text \<open>
  C6: if \<open>OS_VERSION\<close> is a MAJOR.MINOR string (two integer literals around one dot)
  whose major version is not 15, such as "16.0", importing the module fails with the
  \<open>AssertionError\<close> of lines 34--36 and no catalog is produced.
\<close>

theorem unsupported_major_version_fails:
  assumes "getenv_default (getenv_OS_VERSION env) ''15.3'' = v"
    and "split_chr v (CHR ''.'') = [a, b]"
    and "py_int a = Inr major"
    and "py_int b = Inr sp"
    and "major \<noteq> 15"
  shows "bci_tester_data env = Inl AssertionError"
proof -
  from assms(2-4) have "parse_os_version v = Inr (major, sp)"
    unfolding parse_os_version_Inr by blast
  with assms(1,5) show ?thesis
    unfolding bci_tester_data_def by simp
qed

theorem unsupported_major_version_fails_witness:
  "bci_tester_data
     \<lparr>getenv_OS_VERSION = Some ''16.0'', getenv_OS_PRETTY_NAME = None,
      getenv_BCI_DEVEL_REPO = None, system_info_arch = ''x86_64'', DOCKER_SELECTED = False\<rparr>
   = Inl AssertionError"
proof -
  have 1: "split_chr ''16.0'' (CHR ''.'') = [''16'', ''0'']" by simp
  have 2: "py_int ''16'' = Inr 16"
    by (simp add: py_int_def strip_def isspace_def isdigit_def digit_value_def)
  have 3: "py_int ''0'' = Inr 0"
    by (simp add: py_int_def strip_def isspace_def isdigit_def digit_value_def)
  have 4: "(16::int) \<noteq> 15" by simp
  show ?thesis
    by (rule unsupported_major_version_fails [OF _ 1 2 3 4]) (simp add: getenv_default_def)
qed

text \<open>
  C7 (as amended): a codename does not import. When \<open>OS_VERSION\<close> has no dot, or more
  generally is not two integer literals around one dot, line 19 raises \<open>ValueError\<close>;
  the module imports exactly when \<open>OS_VERSION\<close> is MAJOR.MINOR with major version 15.
\<close>

theorem os_version_must_be_major_minor:
  "(CHR ''.'' \<notin> set (getenv_default (getenv_OS_VERSION env) ''15.3'') \<longrightarrow>
      bci_tester_data env = Inl ValueError) \<and>
   ((\<nexists>a b major sp. split_chr (getenv_default (getenv_OS_VERSION env) ''15.3'') (CHR ''.'') = [a, b]
        \<and> py_int a = Inr major \<and> py_int b = Inr sp) \<longrightarrow>
      bci_tester_data env = Inl ValueError) \<and>
   ((\<exists>c. bci_tester_data env = Inr c) \<longleftrightarrow>
      (\<exists>a b sp. split_chr (getenv_default (getenv_OS_VERSION env) ''15.3'') (CHR ''.'') = [a, b]
        \<and> py_int a = Inr 15 \<and> py_int b = Inr sp))"
proof -
  let ?v = "getenv_default (getenv_OS_VERSION env) ''15.3''"
  have 1: "CHR ''.'' \<notin> set ?v \<longrightarrow> bci_tester_data env = Inl ValueError"
    unfolding bci_tester_data_def by (simp add: parse_os_version_no_dot)
  have 2: "(\<nexists>a b major sp. split_chr ?v (CHR ''.'') = [a, b]
        \<and> py_int a = Inr major \<and> py_int b = Inr sp) \<longrightarrow>
      bci_tester_data env = Inl ValueError"
  proof
    assume n: "\<nexists>a b major sp. split_chr ?v (CHR ''.'') = [a, b]
        \<and> py_int a = Inr major \<and> py_int b = Inr sp"
    show "bci_tester_data env = Inl ValueError"
    proof (cases "parse_os_version ?v")
      case (Inl e)
      then show ?thesis
        unfolding bci_tester_data_def using parse_os_version_error [OF Inl] by simp
    next
      case (Inr p)
      then obtain major sp where "parse_os_version ?v = Inr (major, sp)"
        by (cases p) simp
      with n show ?thesis unfolding parse_os_version_Inr by blast
    qed
  qed
  have 3: "(\<exists>c. bci_tester_data env = Inr c) \<longleftrightarrow>
      (\<exists>a b sp. split_chr ?v (CHR ''.'') = [a, b] \<and> py_int a = Inr 15 \<and> py_int b = Inr sp)"
    unfolding bci_tester_data_Inr parse_os_version_Inr by blast
  from 1 2 3 show ?thesis by blast
qed

theorem os_version_must_be_major_minor_witness:
  "bci_tester_data
     \<lparr>getenv_OS_VERSION = Some ''basalt'', getenv_OS_PRETTY_NAME = None,
      getenv_BCI_DEVEL_REPO = None, system_info_arch = ''x86_64'', DOCKER_SELECTED = False\<rparr>
   = Inl ValueError \<and>
   bci_tester_data
     \<lparr>getenv_OS_VERSION = Some ''15.x'', getenv_OS_PRETTY_NAME = None,
      getenv_BCI_DEVEL_REPO = None, system_info_arch = ''x86_64'', DOCKER_SELECTED = False\<rparr>
   = Inl ValueError \<and>
   (\<exists>c. bci_tester_data
     \<lparr>getenv_OS_VERSION = Some ''15.4'', getenv_OS_PRETTY_NAME = None,
      getenv_BCI_DEVEL_REPO = None, system_info_arch = ''x86_64'', DOCKER_SELECTED = False\<rparr>
   = Inr c)"
proof -
  let ?e = "\<lambda>v. \<lparr>getenv_OS_VERSION = Some v, getenv_OS_PRETTY_NAME = None,
      getenv_BCI_DEVEL_REPO = None, system_info_arch = ''x86_64'', DOCKER_SELECTED = False\<rparr>"
  have a: "bci_tester_data (?e ''basalt'') = Inl ValueError"
    using os_version_must_be_major_minor [of "?e ''basalt''"]
    by (simp add: getenv_default_def)
  have x: "py_int ''x'' = Inl ValueError"
    by (simp add: py_int_def strip_def isspace_def isdigit_def)
  have b: "bci_tester_data (?e ''15.x'') = Inl ValueError"
    using os_version_must_be_major_minor [of "?e ''15.x''"] x
    by (simp add: getenv_default_def)
  have p: "py_int ''15'' = Inr 15" "py_int ''4'' = Inr 4"
    by (simp_all add: py_int_def strip_def isspace_def isdigit_def digit_value_def)
  have c: "\<exists>c. bci_tester_data (?e ''15.4'') = Inr c"
    using os_version_must_be_major_minor [of "?e ''15.4''"] p
    by (simp add: getenv_default_def)
  from a b c show ?thesis by simp
qed

text \<open>The claim C7 as written fails: with \<open>OS_VERSION\<close> "tumbleweed" the import raises
  \<open>ValueError\<close>.\<close>

theorem codename_fails_counterexample:
  "bci_tester_data
     \<lparr>getenv_OS_VERSION = Some ''tumbleweed'', getenv_OS_PRETTY_NAME = None,
      getenv_BCI_DEVEL_REPO = None, system_info_arch = ''x86_64'', DOCKER_SELECTED = False\<rparr>
   = Inl ValueError"
  by (simp add: bci_tester_data_def getenv_default_def parse_os_version_def py_int_def strip_def
      isspace_def isdigit_def)

lemma digit_char_in: "d < 10 \<Longrightarrow> digit_char d \<in> set ''0123456789''"
  unfolding digit_char_def by (rule nth_mem) simp

lemma str_nat_digits: "set (str_nat n) \<subseteq> set ''0123456789''"
proof (induction n rule: str_nat.induct)
  case (1 n)
  show ?case
  proof (cases "n < 10")
    case True
    then show ?thesis
      using digit_char_in [of n] by (subst str_nat.simps) simp
  next
    case False
    have "n mod 10 < 10" by simp
    from digit_char_in [OF this] "1" [OF False] False show ?thesis
      by (subst str_nat.simps) simp
  qed
qed

lemma str_nat_no_slash: "CHR ''/'' \<notin> set (str_nat n)"
proof
  assume "CHR ''/'' \<in> set (str_nat n)"
  with str_nat_digits [of n] have "CHR ''/'' \<in> set ''0123456789''" by blast
  then show False by simp
qed

lemma str_int_no_slash: "CHR ''/'' \<notin> set (str_int i)"
  unfolding str_int_def by (simp add: str_nat_no_slash)

lemma str_int_15: "str_int 15 = ''15''"
  by (simp add: str_int_def digit_char_def str_nat.simps)

lemma slash_cancel:
  "CHR ''/'' \<notin> set s \<Longrightarrow>
   (s @ CHR ''/'' # x = CHR ''3'' # CHR ''/'' # y) = (s = ''3'' \<and> x = y)"
  by (cases s; cases "tl s") auto


lemma groups_module_body:
  "DOTNET_CONTAINERS (module_body env v major sp) =
     (let cs = images (module_body env v major sp) in
      [DOTNET_SDK_3_1_CONTAINER cs, DOTNET_SDK_5_0_CONTAINER cs, DOTNET_SDK_6_0_CONTAINER cs,
       DOTNET_ASPNET_3_1_CONTAINER cs, DOTNET_ASPNET_5_0_CONTAINER cs,
       DOTNET_ASPNET_6_0_CONTAINER cs, DOTNET_RUNTIME_3_1_CONTAINER cs,
       DOTNET_RUNTIME_5_0_CONTAINER cs, DOTNET_RUNTIME_6_0_CONTAINER cs])"
  "CONTAINERS_WITH_ZYPPER (module_body env v major sp) =
     (let cs = images (module_body env v major sp) in
      [BASE_CONTAINER cs, GO_1_16_CONTAINER cs, GO_1_17_CONTAINER cs, OPENJDK_11_CONTAINER cs,
       OPENJDK_DEVEL_11_CONTAINER cs, NODEJS_12_CONTAINER cs, NODEJS_14_CONTAINER cs,
       PYTHON36_CONTAINER cs, PYTHON39_CONTAINER cs, INIT_CONTAINER cs]
      @ (if system_info_arch env = ''x86_64''
         then DOTNET_CONTAINERS (module_body env v major sp) else []))"
  "DOTNET_ARCH_SKIP_MARK (module_body env v major sp) = (system_info_arch env \<noteq> ''x86_64'')"
  unfolding module_body_def Let_def
  by (simp_all split: option.splits)

lemma dotnet_apart_remote:
  assumes "cs = remote_containers v
                  (DEFAULT_REGISTRY @ ''/suse/sle-'' @ str_int 15 @ ''-sp'' @ str_int sp
                     @ ''/update/cr/totest/images'') d"
  shows "set [DOTNET_SDK_3_1_CONTAINER cs, DOTNET_SDK_5_0_CONTAINER cs, DOTNET_SDK_6_0_CONTAINER cs,
       DOTNET_ASPNET_3_1_CONTAINER cs, DOTNET_ASPNET_5_0_CONTAINER cs,
       DOTNET_ASPNET_6_0_CONTAINER cs, DOTNET_RUNTIME_3_1_CONTAINER cs,
       DOTNET_RUNTIME_5_0_CONTAINER cs, DOTNET_RUNTIME_6_0_CONTAINER cs]
     \<inter> set [BASE_CONTAINER cs, GO_1_16_CONTAINER cs, GO_1_17_CONTAINER cs, OPENJDK_11_CONTAINER cs,
       OPENJDK_DEVEL_11_CONTAINER cs, NODEJS_12_CONTAINER cs, NODEJS_14_CONTAINER cs,
       PYTHON36_CONTAINER cs, PYTHON39_CONTAINER cs, INIT_CONTAINER cs] = {}"
  unfolding assms remote_containers_def
  by (simp add: DEFAULT_REGISTRY_def str_int_15 slash_cancel str_int_no_slash)


lemma derive_inj:
  "is_Container x \<Longrightarrow> is_Container y \<Longrightarrow> derive f x = derive f y \<Longrightarrow> x = y"
  by (cases x; cases y) (simp_all add: derive_def)

lemma dotnet_apart_replaced:
  assumes "cs = replace_repo f cs0"
    and "cs0 = remote_containers v
                  (DEFAULT_REGISTRY @ ''/suse/sle-'' @ str_int 15 @ ''-sp'' @ str_int sp
                     @ ''/update/cr/totest/images'') d"
  shows "set [DOTNET_SDK_3_1_CONTAINER cs, DOTNET_SDK_5_0_CONTAINER cs, DOTNET_SDK_6_0_CONTAINER cs,
       DOTNET_ASPNET_3_1_CONTAINER cs, DOTNET_ASPNET_5_0_CONTAINER cs,
       DOTNET_ASPNET_6_0_CONTAINER cs, DOTNET_RUNTIME_3_1_CONTAINER cs,
       DOTNET_RUNTIME_5_0_CONTAINER cs, DOTNET_RUNTIME_6_0_CONTAINER cs]
     \<inter> set [BASE_CONTAINER cs, GO_1_16_CONTAINER cs, GO_1_17_CONTAINER cs, OPENJDK_11_CONTAINER cs,
       OPENJDK_DEVEL_11_CONTAINER cs, NODEJS_12_CONTAINER cs, NODEJS_14_CONTAINER cs,
       PYTHON36_CONTAINER cs, PYTHON39_CONTAINER cs, INIT_CONTAINER cs] = {}"
proof -
  let ?n = "[DOTNET_SDK_3_1_CONTAINER cs0, DOTNET_SDK_5_0_CONTAINER cs0,
       DOTNET_SDK_6_0_CONTAINER cs0, DOTNET_ASPNET_3_1_CONTAINER cs0,
       DOTNET_ASPNET_5_0_CONTAINER cs0, DOTNET_ASPNET_6_0_CONTAINER cs0,
       DOTNET_RUNTIME_3_1_CONTAINER cs0, DOTNET_RUNTIME_5_0_CONTAINER cs0,
       DOTNET_RUNTIME_6_0_CONTAINER cs0]"
  let ?t = "[BASE_CONTAINER cs0, GO_1_16_CONTAINER cs0, GO_1_17_CONTAINER cs0,
       OPENJDK_11_CONTAINER cs0, OPENJDK_DEVEL_11_CONTAINER cs0, NODEJS_12_CONTAINER cs0,
       NODEJS_14_CONTAINER cs0, PYTHON36_CONTAINER cs0, PYTHON39_CONTAINER cs0,
       INIT_CONTAINER cs0]"
  have n: "[DOTNET_SDK_3_1_CONTAINER cs, DOTNET_SDK_5_0_CONTAINER cs, DOTNET_SDK_6_0_CONTAINER cs,
       DOTNET_ASPNET_3_1_CONTAINER cs, DOTNET_ASPNET_5_0_CONTAINER cs,
       DOTNET_ASPNET_6_0_CONTAINER cs, DOTNET_RUNTIME_3_1_CONTAINER cs,
       DOTNET_RUNTIME_5_0_CONTAINER cs, DOTNET_RUNTIME_6_0_CONTAINER cs] = map (derive f) ?n"
    unfolding assms(1) replace_repo_def by simp
  have t: "[BASE_CONTAINER cs, GO_1_16_CONTAINER cs, GO_1_17_CONTAINER cs, OPENJDK_11_CONTAINER cs,
       OPENJDK_DEVEL_11_CONTAINER cs, NODEJS_12_CONTAINER cs, NODEJS_14_CONTAINER cs,
       PYTHON36_CONTAINER cs, PYTHON39_CONTAINER cs, INIT_CONTAINER cs] = map (derive f) ?t"
    unfolding assms(1) replace_repo_def by simp
  have apart: "set ?n \<inter> set ?t = {}"
    by (rule dotnet_apart_remote [OF assms(2)])
  have cn: "list_all is_Container ?n"
    unfolding assms(2) remote_containers_def by simp
  have ct: "list_all is_Container ?t"
    unfolding assms(2) remote_containers_def by simp
  have inj: "inj_on (derive f) (set ?n \<union> set ?t)"
  proof (rule inj_onI)
    fix x y
    assume "x \<in> set ?n \<union> set ?t" and "y \<in> set ?n \<union> set ?t"
      and e: "derive f x = derive f y"
    with cn ct have "is_Container x" and "is_Container y"
      unfolding list_all_iff by blast+
    with e show "x = y" by (rule derive_inj [rotated 2])
  qed
  have "derive f ` set ?n \<inter> derive f ` set ?t = derive f ` (set ?n \<inter> set ?t)"
    by (rule inj_on_image_Int [OF inj, symmetric]) blast+
  also have "\<dots> = {}"
    unfolding apart by simp
  finally show ?thesis
    unfolding n t set_map .
qed

lemma dotnet_apart_images:
  "set [DOTNET_SDK_3_1_CONTAINER (images (module_body env v 15 sp)), DOTNET_SDK_5_0_CONTAINER (images (module_body env v 15 sp)), DOTNET_SDK_6_0_CONTAINER (images (module_body env v 15 sp)),
       DOTNET_ASPNET_3_1_CONTAINER (images (module_body env v 15 sp)), DOTNET_ASPNET_5_0_CONTAINER (images (module_body env v 15 sp)),
       DOTNET_ASPNET_6_0_CONTAINER (images (module_body env v 15 sp)), DOTNET_RUNTIME_3_1_CONTAINER (images (module_body env v 15 sp)),
       DOTNET_RUNTIME_5_0_CONTAINER (images (module_body env v 15 sp)), DOTNET_RUNTIME_6_0_CONTAINER (images (module_body env v 15 sp))]
     \<inter> set [BASE_CONTAINER (images (module_body env v 15 sp)), GO_1_16_CONTAINER (images (module_body env v 15 sp)), GO_1_17_CONTAINER (images (module_body env v 15 sp)), OPENJDK_11_CONTAINER (images (module_body env v 15 sp)),
       OPENJDK_DEVEL_11_CONTAINER (images (module_body env v 15 sp)), NODEJS_12_CONTAINER (images (module_body env v 15 sp)), NODEJS_14_CONTAINER (images (module_body env v 15 sp)),
       PYTHON36_CONTAINER (images (module_body env v 15 sp)), PYTHON39_CONTAINER (images (module_body env v 15 sp)), INIT_CONTAINER (images (module_body env v 15 sp))] = {}"
proof (cases "getenv_BCI_DEVEL_REPO env")
  case None
  show ?thesis
    by (rule dotnet_apart_remote) (simp add: images_module_body None)
next
  case (Some r)
  show ?thesis
    by (rule dotnet_apart_replaced [OF _ refl]) (simp add: images_module_body Some)
qed

text \<open>
  C8: in an imported catalog, \<open>DOTNET_CONTAINERS\<close> lists the nine .NET descriptors,
  and it is contained in \<open>CONTAINERS_WITH_ZYPPER\<close> if and only if the architecture of
  the host is "x86_64"; on any other architecture none of the nine is a member of
  that group.
\<close>

theorem dotnet_in_zypper_group_iff_x86_64:
  assumes "bci_tester_data env = Inr c"
  shows "DOTNET_CONTAINERS c =
      [DOTNET_SDK_3_1_CONTAINER (images c), DOTNET_SDK_5_0_CONTAINER (images c), DOTNET_SDK_6_0_CONTAINER (images c),
       DOTNET_ASPNET_3_1_CONTAINER (images c), DOTNET_ASPNET_5_0_CONTAINER (images c),
       DOTNET_ASPNET_6_0_CONTAINER (images c), DOTNET_RUNTIME_3_1_CONTAINER (images c),
       DOTNET_RUNTIME_5_0_CONTAINER (images c), DOTNET_RUNTIME_6_0_CONTAINER (images c)] \<and>
    (set (DOTNET_CONTAINERS c) \<subseteq> set (CONTAINERS_WITH_ZYPPER c)
       \<longleftrightarrow> system_info_arch env = ''x86_64'') \<and>
    (system_info_arch env \<noteq> ''x86_64'' \<longrightarrow>
       (\<forall>d \<in> set (DOTNET_CONTAINERS c). d \<notin> set (CONTAINERS_WITH_ZYPPER c)))"
proof -
  from assms obtain sp where
    c: "c = module_body env (getenv_default (getenv_OS_VERSION env) ''15.3'') 15 sp"
    unfolding bci_tester_data_Inr by blast
  let ?nine = "[DOTNET_SDK_3_1_CONTAINER (images c), DOTNET_SDK_5_0_CONTAINER (images c), DOTNET_SDK_6_0_CONTAINER (images c),
       DOTNET_ASPNET_3_1_CONTAINER (images c), DOTNET_ASPNET_5_0_CONTAINER (images c),
       DOTNET_ASPNET_6_0_CONTAINER (images c), DOTNET_RUNTIME_3_1_CONTAINER (images c),
       DOTNET_RUNTIME_5_0_CONTAINER (images c), DOTNET_RUNTIME_6_0_CONTAINER (images c)]"
  let ?ten = "[BASE_CONTAINER (images c), GO_1_16_CONTAINER (images c), GO_1_17_CONTAINER (images c), OPENJDK_11_CONTAINER (images c),
       OPENJDK_DEVEL_11_CONTAINER (images c), NODEJS_12_CONTAINER (images c), NODEJS_14_CONTAINER (images c),
       PYTHON36_CONTAINER (images c), PYTHON39_CONTAINER (images c), INIT_CONTAINER (images c)]"
  have n: "DOTNET_CONTAINERS c = ?nine"
    unfolding c by (simp add: groups_module_body(1) Let_def)
  have z: "CONTAINERS_WITH_ZYPPER c =
             ?ten @ (if system_info_arch env = ''x86_64'' then DOTNET_CONTAINERS c else [])"
    unfolding c by (simp add: groups_module_body(2) Let_def)
  have apart: "set ?nine \<inter> set ?ten = {}"
    unfolding c by (rule dotnet_apart_images)
  have mem: "DOTNET_SDK_3_1_CONTAINER (images c) \<in> set ?nine"
    by simp
  have 1: "system_info_arch env = ''x86_64'' \<Longrightarrow>
             set (DOTNET_CONTAINERS c) \<subseteq> set (CONTAINERS_WITH_ZYPPER c)"
    unfolding z by auto
  have 2: "\<forall>d \<in> set (DOTNET_CONTAINERS c). d \<notin> set (CONTAINERS_WITH_ZYPPER c)"
    if "system_info_arch env \<noteq> ''x86_64''"
  proof -
    from that have w: "CONTAINERS_WITH_ZYPPER c = ?ten"
      unfolding z by simp
    show ?thesis
      unfolding w unfolding n using apart by blast
  qed
  have 3: "system_info_arch env = ''x86_64''"
    if s: "set (DOTNET_CONTAINERS c) \<subseteq> set (CONTAINERS_WITH_ZYPPER c)"
  proof (rule ccontr)
    assume a: "system_info_arch env \<noteq> ''x86_64''"
    from mem have "DOTNET_SDK_3_1_CONTAINER (images c) \<in> set (DOTNET_CONTAINERS c)"
      unfolding n .
    with s 2 [OF a] show False by blast
  qed
  show ?thesis
  proof (intro conjI)
    show "DOTNET_CONTAINERS c = ?nine" by (rule n)
    show "set (DOTNET_CONTAINERS c) \<subseteq> set (CONTAINERS_WITH_ZYPPER c)
            \<longleftrightarrow> system_info_arch env = ''x86_64''"
    proof
      assume "set (DOTNET_CONTAINERS c) \<subseteq> set (CONTAINERS_WITH_ZYPPER c)"
      then show "system_info_arch env = ''x86_64''" by (rule 3)
    next
      assume "system_info_arch env = ''x86_64''"
      then show "set (DOTNET_CONTAINERS c) \<subseteq> set (CONTAINERS_WITH_ZYPPER c)" by (rule 1)
    qed
    show "system_info_arch env \<noteq> ''x86_64'' \<longrightarrow>
            (\<forall>d \<in> set (DOTNET_CONTAINERS c). d \<notin> set (CONTAINERS_WITH_ZYPPER c))"
      by (intro impI) (rule 2)
  qed
qed

theorem dotnet_in_zypper_group_iff_x86_64_witness:
  "(\<exists>c. bci_tester_data
      \<lparr>getenv_OS_VERSION = Some ''15.3'', getenv_OS_PRETTY_NAME = None,
       getenv_BCI_DEVEL_REPO = None, system_info_arch = ''x86_64'',
       DOCKER_SELECTED = False\<rparr> = Inr c \<and>
     set (DOTNET_CONTAINERS c) \<subseteq> set (CONTAINERS_WITH_ZYPPER c)) \<and>
   (\<exists>c. bci_tester_data
      \<lparr>getenv_OS_VERSION = Some ''15.3'', getenv_OS_PRETTY_NAME = None,
       getenv_BCI_DEVEL_REPO = None, system_info_arch = ''s390x'',
       DOCKER_SELECTED = False\<rparr> = Inr c \<and>
     (\<forall>d \<in> set (DOTNET_CONTAINERS c). d \<notin> set (CONTAINERS_WITH_ZYPPER c)))"
proof -
  let ?e = "\<lambda>a. \<lparr>getenv_OS_VERSION = Some ''15.3'', getenv_OS_PRETTY_NAME = None,
       getenv_BCI_DEVEL_REPO = None, system_info_arch = a, DOCKER_SELECTED = False\<rparr>"
  have x: "bci_tester_data (?e ''x86_64'') = Inr (module_body (?e ''x86_64'') ''15.3'' 15 3)"
    by (rule bci_tester_data_15_3) simp
  have s: "bci_tester_data (?e ''s390x'') = Inr (module_body (?e ''s390x'') ''15.3'' 15 3)"
    by (rule bci_tester_data_15_3) simp
  from dotnet_in_zypper_group_iff_x86_64 [OF x, THEN conjunct2, THEN conjunct1]
  have a: "set (DOTNET_CONTAINERS (module_body (?e ''x86_64'') ''15.3'' 15 3))
             \<subseteq> set (CONTAINERS_WITH_ZYPPER (module_body (?e ''x86_64'') ''15.3'' 15 3))"
    by simp
  from dotnet_in_zypper_group_iff_x86_64 [OF s, THEN conjunct2, THEN conjunct2]
  have b: "\<forall>d \<in> set (DOTNET_CONTAINERS (module_body (?e ''s390x'') ''15.3'' 15 3)).
             d \<notin> set (CONTAINERS_WITH_ZYPPER (module_body (?e ''s390x'') ''15.3'' 15 3))"
    by simp
  from x a s b show ?thesis by blast
qed

text \<open>
  C9 (as amended): the architecture never makes the import fail. Whether the import
  succeeds is the same on every architecture; when it succeeds on an architecture
  other than "x86_64", the skip condition \<open>DOTNET_ARCH_SKIP_MARK\<close> holds, the nine
  .NET descriptors are still built, and \<open>CONTAINERS_WITH_ZYPPER\<close> holds the ten other
  images only.
\<close>

theorem import_independent_of_arch:
  "isl (bci_tester_data (env\<lparr>system_info_arch := a\<rparr>)) = isl (bci_tester_data env) \<and>
   (\<forall>c. bci_tester_data env = Inr c \<and> system_info_arch env \<noteq> ''x86_64'' \<longrightarrow>
      DOTNET_ARCH_SKIP_MARK c \<and>
      length (DOTNET_CONTAINERS c) = 9 \<and>
      CONTAINERS_WITH_ZYPPER c =
        [BASE_CONTAINER (images c), GO_1_16_CONTAINER (images c), GO_1_17_CONTAINER (images c),
         OPENJDK_11_CONTAINER (images c), OPENJDK_DEVEL_11_CONTAINER (images c),
         NODEJS_12_CONTAINER (images c), NODEJS_14_CONTAINER (images c),
         PYTHON36_CONTAINER (images c), PYTHON39_CONTAINER (images c),
         INIT_CONTAINER (images c)])"
proof -
  let ?v = "getenv_default (getenv_OS_VERSION env) ''15.3''"
  have 1: "isl (bci_tester_data (env\<lparr>system_info_arch := a\<rparr>)) = isl (bci_tester_data env)"
  proof (cases "parse_os_version ?v")
    case (Inl e)
    then show ?thesis
      unfolding bci_tester_data_def by simp
  next
    case (Inr p)
    obtain major sp where p: "p = (major, sp)" by (cases p)
    from Inr show ?thesis
      unfolding bci_tester_data_def p by simp
  qed
  have 2: "DOTNET_ARCH_SKIP_MARK c \<and> length (DOTNET_CONTAINERS c) = 9 \<and>
      CONTAINERS_WITH_ZYPPER c =
        [BASE_CONTAINER (images c), GO_1_16_CONTAINER (images c), GO_1_17_CONTAINER (images c),
         OPENJDK_11_CONTAINER (images c), OPENJDK_DEVEL_11_CONTAINER (images c),
         NODEJS_12_CONTAINER (images c), NODEJS_14_CONTAINER (images c),
         PYTHON36_CONTAINER (images c), PYTHON39_CONTAINER (images c),
         INIT_CONTAINER (images c)]"
    if "bci_tester_data env = Inr c" and "system_info_arch env \<noteq> ''x86_64''" for c
  proof -
    from that(1) obtain sp where
      c: "c = module_body env (getenv_default (getenv_OS_VERSION env) ''15.3'') 15 sp"
      unfolding bci_tester_data_Inr by blast
    have a: "DOTNET_ARCH_SKIP_MARK c"
      unfolding c using that(2) by (simp add: groups_module_body(3))
    have b: "length (DOTNET_CONTAINERS c) = 9"
      unfolding c by (simp add: groups_module_body(1) Let_def)
    have d: "CONTAINERS_WITH_ZYPPER c =
        [BASE_CONTAINER (images c), GO_1_16_CONTAINER (images c), GO_1_17_CONTAINER (images c),
         OPENJDK_11_CONTAINER (images c), OPENJDK_DEVEL_11_CONTAINER (images c),
         NODEJS_12_CONTAINER (images c), NODEJS_14_CONTAINER (images c),
         PYTHON36_CONTAINER (images c), PYTHON39_CONTAINER (images c),
         INIT_CONTAINER (images c)]"
      unfolding c using that(2) by (simp add: groups_module_body(2) Let_def)
    from a b d show ?thesis by (intro conjI)
  qed
  show ?thesis
  proof (rule conjI)
    show "isl (bci_tester_data (env\<lparr>system_info_arch := a\<rparr>)) = isl (bci_tester_data env)"
      by (rule 1)
    show "\<forall>c. bci_tester_data env = Inr c \<and> system_info_arch env \<noteq> ''x86_64'' \<longrightarrow>
      DOTNET_ARCH_SKIP_MARK c \<and>
      length (DOTNET_CONTAINERS c) = 9 \<and>
      CONTAINERS_WITH_ZYPPER c =
        [BASE_CONTAINER (images c), GO_1_16_CONTAINER (images c), GO_1_17_CONTAINER (images c),
         OPENJDK_11_CONTAINER (images c), OPENJDK_DEVEL_11_CONTAINER (images c),
         NODEJS_12_CONTAINER (images c), NODEJS_14_CONTAINER (images c),
         PYTHON36_CONTAINER (images c), PYTHON39_CONTAINER (images c),
         INIT_CONTAINER (images c)]"
    proof (rule allI, rule impI)
      fix c
      assume h: "bci_tester_data env = Inr c \<and> system_info_arch env \<noteq> ''x86_64''"
      show "DOTNET_ARCH_SKIP_MARK c \<and> length (DOTNET_CONTAINERS c) = 9 \<and>
        CONTAINERS_WITH_ZYPPER c =
          [BASE_CONTAINER (images c), GO_1_16_CONTAINER (images c), GO_1_17_CONTAINER (images c),
           OPENJDK_11_CONTAINER (images c), OPENJDK_DEVEL_11_CONTAINER (images c),
           NODEJS_12_CONTAINER (images c), NODEJS_14_CONTAINER (images c),
           PYTHON36_CONTAINER (images c), PYTHON39_CONTAINER (images c),
           INIT_CONTAINER (images c)]"
        by (rule 2 [OF conjunct1 [OF h] conjunct2 [OF h]])
    qed
  qed
qed

theorem import_independent_of_arch_witness:
  "\<not> isl (bci_tester_data
      \<lparr>getenv_OS_VERSION = None, getenv_OS_PRETTY_NAME = None,
       getenv_BCI_DEVEL_REPO = None, system_info_arch = ''ppc64le'',
       DOCKER_SELECTED = False\<rparr>) \<and>
   DOTNET_ARCH_SKIP_MARK (projr (bci_tester_data
      \<lparr>getenv_OS_VERSION = None, getenv_OS_PRETTY_NAME = None,
       getenv_BCI_DEVEL_REPO = None, system_info_arch = ''ppc64le'',
       DOCKER_SELECTED = False\<rparr>))"
proof -
  let ?x = "\<lparr>getenv_OS_VERSION = None, getenv_OS_PRETTY_NAME = None,
       getenv_BCI_DEVEL_REPO = None, system_info_arch = ''x86_64'', DOCKER_SELECTED = False\<rparr>"
  let ?p = "\<lparr>getenv_OS_VERSION = None, getenv_OS_PRETTY_NAME = None,
       getenv_BCI_DEVEL_REPO = None, system_info_arch = ''ppc64le'', DOCKER_SELECTED = False\<rparr>"
  have x: "bci_tester_data ?x = Inr (module_body ?x ''15.3'' 15 3)"
    by (simp add: bci_tester_data_def getenv_default_def parse_os_version_15_3)
  have p: "bci_tester_data ?p = Inr (module_body ?p ''15.3'' 15 3)"
    by (simp add: bci_tester_data_def getenv_default_def parse_os_version_15_3)
  have u: "?x\<lparr>system_info_arch := ''ppc64le''\<rparr> = ?p"
    by simp
  from import_independent_of_arch [where env = ?x and a = "''ppc64le''", THEN conjunct1]
  have "isl (bci_tester_data ?p) = isl (bci_tester_data ?x)"
    unfolding u .
  then have a: "\<not> isl (bci_tester_data ?p)"
    unfolding x by simp
  have n: "system_info_arch ?p \<noteq> ''x86_64''"
    by simp
  from import_independent_of_arch [where env = ?p and a = "''ppc64le''", THEN conjunct2,
      THEN spec, THEN mp, OF conjI, OF p n]
  have b: "DOTNET_ARCH_SKIP_MARK (module_body ?p ''15.3'' 15 3)"
    by (rule conjunct1)
  from a b show ?thesis
    unfolding p by simp
qed

text \<open>The claim C9 as written fails: on "aarch64" with \<open>OS_VERSION\<close> "15.3" the import
  succeeds, and the nine .NET descriptors are part of the catalog.\<close>

theorem dotnet_on_aarch64_counterexample:
  "bci_tester_data
      \<lparr>getenv_OS_VERSION = Some ''15.3'', getenv_OS_PRETTY_NAME = None,
       getenv_BCI_DEVEL_REPO = None, system_info_arch = ''aarch64'',
       DOCKER_SELECTED = False\<rparr>
   = Inr (module_body
      \<lparr>getenv_OS_VERSION = Some ''15.3'', getenv_OS_PRETTY_NAME = None,
       getenv_BCI_DEVEL_REPO = None, system_info_arch = ''aarch64'',
       DOCKER_SELECTED = False\<rparr> ''15.3'' 15 3) \<and>
   length (DOTNET_CONTAINERS (module_body
      \<lparr>getenv_OS_VERSION = Some ''15.3'', getenv_OS_PRETTY_NAME = None,
       getenv_BCI_DEVEL_REPO = None, system_info_arch = ''aarch64'',
       DOCKER_SELECTED = False\<rparr> ''15.3'' 15 3)) = 9"
proof (rule conjI)
  show "bci_tester_data
      \<lparr>getenv_OS_VERSION = Some ''15.3'', getenv_OS_PRETTY_NAME = None,
       getenv_BCI_DEVEL_REPO = None, system_info_arch = ''aarch64'',
       DOCKER_SELECTED = False\<rparr>
   = Inr (module_body
      \<lparr>getenv_OS_VERSION = Some ''15.3'', getenv_OS_PRETTY_NAME = None,
       getenv_BCI_DEVEL_REPO = None, system_info_arch = ''aarch64'',
       DOCKER_SELECTED = False\<rparr> ''15.3'' 15 3)"
    by (rule bci_tester_data_15_3) simp
  show "length (DOTNET_CONTAINERS (module_body
      \<lparr>getenv_OS_VERSION = Some ''15.3'', getenv_OS_PRETTY_NAME = None,
       getenv_BCI_DEVEL_REPO = None, system_info_arch = ''aarch64'',
       DOCKER_SELECTED = False\<rparr> ''15.3'' 15 3)) = 9"
    by (simp add: groups_module_body(1) Let_def)
qed

end
